theory Spec2Isabelle
  imports Complex_Main
begin

section \<open>Fixed-pattern deflectometry processing (ProcessSofastFixed)\<close>

text \<open>
  A shallow embedding of the class \<^verbatim>\<open>ProcessSofastFixed\<close> of
  \<^verbatim>\<open>opencsp/app/sofast/lib/ProcessSofastFixed.py\<close>. The class sequences blob
  detection, blob indexing, mask calculation, geometry processing and slope solving,
  and keeps every intermediate result as an attribute of the instance. The methods
  are modelled as functions from a world (the instance, the objects it shares with
  its caller, and the warnings logged) to an outcome and the world the call leaves
  behind; an exception is an outcome \<open>Inl e\<close>, and the world returned with it is the
  one the exception leaves.

  The arrays of the program hold floating-point numbers. The model computes with
  the real numbers, so rounding is not part of it; a quotient whose divisor is zero,
  which numpy evaluates to an infinity or a not-a-number, is the value \<open>None\<close>.
\<close>

subsection \<open>Vectors, rotations and rigid transforms\<close>

text \<open>
  Modelled from the spec: the classes \<^verbatim>\<open>Vxyz\<close>, \<^verbatim>\<open>Uxyz\<close>, \<^verbatim>\<open>Vxy\<close>
  (\<^verbatim>\<open>opencsp.common.lib.geometry\<close>) and scipy's \<^verbatim>\<open>Rotation\<close> are not among the
  sources. A single vector is a triple, a set of vectors is a list of triples, and a
  rotation is its matrix, given by rows. \<^verbatim>\<open>Uxyz\<close> holds vectors scaled to length one.
\<close>

type_synonym vec = "real \<times> real \<times> real"
type_synonym rot = "vec \<times> vec \<times> vec"
type_synonym vxy = "(real \<times> real) list"

fun vadd :: "vec \<Rightarrow> vec \<Rightarrow> vec" where
  "vadd (a, b, c) (x, y, z) = (a + x, b + y, c + z)"

fun vneg :: "vec \<Rightarrow> vec" where
  "vneg (x, y, z) = (- x, - y, - z)"

fun vscale :: "real \<Rightarrow> vec \<Rightarrow> vec" where
  "vscale k (x, y, z) = (k * x, k * y, k * z)"

fun dot :: "vec \<Rightarrow> vec \<Rightarrow> real" where
  "dot (a, b, c) (x, y, z) = a * x + b * y + c * z"

fun cross :: "vec \<Rightarrow> vec \<Rightarrow> vec" where
  "cross (a, b, c) (x, y, z) = (b * z - c * y, c * x - a * z, a * y - b * x)"

definition magnitude :: "vec \<Rightarrow> real" where
  "magnitude v = sqrt (dot v v)"

definition normalize :: "vec \<Rightarrow> vec" where
  "normalize v = vscale (1 / magnitude v) v"

definition boresight :: vec where
  "boresight = (0, 0, 1)"

definition rot_id :: rot where
  "rot_id = ((1, 0, 0), (0, 1, 0), (0, 0, 1))"

fun rot_apply :: "rot \<Rightarrow> vec \<Rightarrow> vec" where
  "rot_apply (r1, r2, r3) v = (dot r1 v, dot r2 v, dot r3 v)"

fun transpose3 :: "rot \<Rightarrow> rot" where
  "transpose3 ((a, b, c), (d, e, f), (g, h, i)) = ((a, d, g), (b, e, h), (c, f, i))"

definition rot_inv :: "rot \<Rightarrow> rot" where
  "rot_inv p = transpose3 p"

definition rot_mul :: "rot \<Rightarrow> rot \<Rightarrow> rot" where
  "rot_mul p q =
     (case transpose3 q of (c1, c2, c3) \<Rightarrow>
        (case p of (r1, r2, r3) \<Rightarrow>
           ((dot r1 c1, dot r1 c2, dot r1 c3),
            (dot r2 c1, dot r2 c2, dot r2 c3),
            (dot r3 c1, dot r3 c2, dot r3 c3))))"

definition rot_add :: "rot \<Rightarrow> rot \<Rightarrow> rot" where
  "rot_add p q =
     (case p of (r1, r2, r3) \<Rightarrow> (case q of (s1, s2, s3) \<Rightarrow> (vadd r1 s1, vadd r2 s2, vadd r3 s3)))"

definition rot_scale :: "real \<Rightarrow> rot \<Rightarrow> rot" where
  "rot_scale k p = (case p of (r1, r2, r3) \<Rightarrow> (vscale k r1, vscale k r2, vscale k r3))"

text \<open>
  A value of scipy's \<^verbatim>\<open>Rotation\<close> is an orthonormal matrix; for these the transpose
  is the inverse.
\<close>

definition is_rotation :: "rot \<Rightarrow> bool" where
  "is_rotation p = (rot_mul (transpose3 p) p = rot_id \<and> rot_mul p (transpose3 p) = rot_id)"

definition rotate :: "rot \<Rightarrow> vec list \<Rightarrow> vec list" where
  "rotate p vs = map (rot_apply p) vs"

definition vmean :: "vec list \<Rightarrow> vec" where
  "vmean vs = vscale (1 / real (length vs)) (foldr vadd vs (0, 0, 0))"

definition np_div :: "real \<Rightarrow> real \<Rightarrow> real option" where
  "np_div a b = (if b = 0 then None else Some (a / b))"

text \<open>
  Modelled from the spec: \<^verbatim>\<open>TransformXYZ\<close> (``rotation + translation composing
  orientation and position between two coordinate frames; composable, invertible'').
  \<open>transform_mul s t\<close> is the transform that applies \<open>t\<close> first and \<open>s\<close> second.
\<close>

record transform_xyz =
  trans_R :: rot
  trans_V :: vec

definition from_R_V :: "rot \<Rightarrow> vec \<Rightarrow> transform_xyz" where
  "from_R_V r v = \<lparr>trans_R = r, trans_V = v\<rparr>"

definition from_R :: "rot \<Rightarrow> transform_xyz" where
  "from_R r = from_R_V r (0, 0, 0)"

definition from_V :: "vec \<Rightarrow> transform_xyz" where
  "from_V v = from_R_V rot_id v"

definition transform_mul :: "transform_xyz \<Rightarrow> transform_xyz \<Rightarrow> transform_xyz" where
  "transform_mul s t =
     \<lparr>trans_R = rot_mul (trans_R s) (trans_R t),
      trans_V = vadd (rot_apply (trans_R s) (trans_V t)) (trans_V s)\<rparr>"

definition transform_apply :: "transform_xyz \<Rightarrow> vec list \<Rightarrow> vec list" where
  "transform_apply t vs = map (\<lambda>v. vadd (rot_apply (trans_R t) v) (trans_V t)) vs"

subsection \<open>Exceptions, attributes and shared objects\<close>

text \<open>
  An exception carries its class and the fixed part of its message; the numbers the
  program formats into a message are left out. Of the log, only the messages of
  \<^verbatim>\<open>lt.warn\<close> are kept (in \<^verbatim>\<open>warnings\<close>); \<^verbatim>\<open>lt.error_and_raise\<close> is its raise.
\<close>

datatype error =
  ValueError string
  | AttributeError string
  | TypeError string
  | IndexError string
  | OtherError string

text \<open>
  An attribute of the instance is unbound until a method assigns it (the constructor
  only annotates most of them), bound to Python's \<^verbatim>\<open>None\<close>, or bound to a value.
\<close>

datatype 'a attr = Unbound | PyNone | Val 'a

definition get_attr :: "string \<Rightarrow> 'a attr \<Rightarrow> error + 'a attr" where
  "get_attr name a = (case a of Unbound \<Rightarrow> Inl (AttributeError name) | _ \<Rightarrow> Inr a)"

definition attr_obj :: "string \<Rightarrow> 'a attr \<Rightarrow> error + 'a" where
  "attr_obj name a =
     (case a of Unbound \<Rightarrow> Inl (AttributeError name)
      | PyNone \<Rightarrow> Inl (AttributeError ''NoneType'')
      | Val v \<Rightarrow> Inr v)"

definition attr_val :: "string \<Rightarrow> 'a attr \<Rightarrow> error + 'a" where
  "attr_val name a =
     (case a of Unbound \<Rightarrow> Inl (AttributeError name)
      | PyNone \<Rightarrow> Inl (TypeError ''NoneType'')
      | Val v \<Rightarrow> Inr v)"

definition list_get :: "'a list \<Rightarrow> nat \<Rightarrow> error + 'a" where
  "list_get xs i = (if i < length xs then Inr (xs ! i) else Inl (IndexError ''index out of range''))"

type_synonym addr = nat
type_synonym image = "nat list list"
type_synonym mask_array = "bool list list"

record definition_facet =
  v_facet_corners :: "vec list"
  v_facet_centroid :: vec

record definition_ensemble =
  r_facet_ensemble :: "rot list"
  v_facet_locations :: "vec list"

text \<open>
  The objects a caller shares with the instance live in a store: facet definitions,
  ensemble definitions and surface models, each at an address. \<open>fd_next\<close> and
  \<open>ed_next\<close> are the first addresses not yet in use. A type variable \<open>'o\<close> stands for
  the objects the class only hands on (camera, dot locations, surface model, solver).
\<close>

record 'o store =
  facet_defs :: "addr \<Rightarrow> definition_facet"
  fd_next :: addr
  ensemble_defs :: "addr \<Rightarrow> definition_ensemble"
  ed_next :: addr
  surfaces :: "addr \<Rightarrow> 'o"

subsection \<open>The data the class holds\<close>

record measurement_sofast_fixed =
  image_arr :: image
  v_measure_point_facet :: vec
  dist_optic_screen :: real

record spatial_orientation =
  r_cam_screen :: rot
  v_cam_screen_cam :: vec

record blob_detector_params =
  minDistBetweenBlobs :: real
  filterByArea :: bool
  minArea :: real
  maxArea :: real
  filterByCircularity :: bool
  filterByConvexity :: bool
  filterByInertia :: bool

record params_mask_calculation =
  hist_thresh :: real
  filt_width :: int
  filt_thresh :: int
  thresh_active_pixels :: int
  keep_largest_area :: bool

record ('o, 'r) debug_slope_solver =
  optic_data :: "'r attr"
  debug_settings :: 'o

record 'o params_sofast_fixed =
  blob_search_thresh :: real
  search_perp_axis_ratio :: real
  mask :: params_mask_calculation
  geometry :: 'o
  debug_slope_solver :: "('o, addr) debug_slope_solver"
  debug_geometry :: 'o

record 'o blob_index_obj =
  search_thresh :: real
  bi_search_perp_axis_ratio :: real
  bi_points :: 'o

record geometry_general =
  r_optic_cam_refine_1 :: rot
  v_cam_optic_cam_refine_2 :: vec
  r_optic_cam_refine_2 :: rot
  v_cam_optic_cam_refine_3 :: vec

record geometry_facet =
  u_cam_measure_point_facet :: vec
  v_align_point_facet :: vec
  measure_point_screen_distance :: real

record 'o image_processing_facet =
  loop_facet_image_refine :: 'o

record slope_solver_data =
  trans_alignment :: transform_xyz
  slopes_facet_xy :: "(real \<times> real) list"
  v_surf_points_facet :: "vec list"

record calculation_facet_ensemble =
  trans_facet_ensemble :: transform_xyz
  slopes_ensemble_xy :: "(real option \<times> real option) list"
  v_surf_points_ensemble :: "vec list"
  v_facet_pointing_ensemble :: vec

text \<open>
  The keyword arguments of the slope solver. The entries \<^verbatim>\<open>debug\<close> and
  \<^verbatim>\<open>surface\<close> are references: in the dictionary the method builds, \<open>kw_debug\<close>
  names the one object \<^verbatim>\<open>self.params.debug_slope_solver\<close> and \<open>kw_surface\<close> is an
  address; where the solver reads them they are the contents of these objects.
\<close>

datatype debug_ref = Params_debug_slope_solver

record ('d, 's) slope_kwargs =
  v_optic_cam_optic :: vec
  u_active_pixel_pointing_optic :: "vec list"
  u_measure_pixel_pointing_optic :: vec
  v_screen_points_facet :: "vec list"
  v_optic_screen_optic :: vec
  v_align_point_optic :: vec
  kw_dist_optic_screen :: real
  kw_debug :: 'd
  kw_surface :: 's

record 'o process_sofast_fixed =
  orientation :: spatial_orientation
  camera :: 'o
  fixed_pattern_dot_locs :: 'o
  params :: "'o params_sofast_fixed"
  measurement :: "measurement_sofast_fixed attr"
  blob_detector :: blob_detector_params
  num_facets :: "nat attr"
  optic_type :: "string attr"
  data_facet_def :: "addr list attr"
  data_ensemble_def :: "addr attr"
  data_surfaces :: "addr list attr"
  data_geometry_general :: "geometry_general attr"
  data_image_proccessing_general :: "'o attr"
  data_geometry_facet :: "geometry_facet list attr"
  data_image_processing_facet :: "'o image_processing_facet list attr"
  data_error :: "'o attr"
  data_calculation_facet :: "slope_solver_data list attr"
  data_calculation_ensemble :: "calculation_facet_ensemble list attr"
  slope_solver :: "'o list attr"
  blob_index :: "'o blob_index_obj attr"

record 'o world =
  self :: "'o process_sofast_fixed"
  heap :: "'o store"
  warnings :: "string list"

subsection \<open>Methods as actions on the world\<close>

type_synonym ('w, 'a) action = "'w \<Rightarrow> (error + 'a) \<times> 'w"

definition returns :: "'a \<Rightarrow> ('w, 'a) action" where
  "returns x = (\<lambda>w. (Inr x, w))"

definition raises :: "error \<Rightarrow> ('w, 'a) action" where
  "raises e = (\<lambda>w. (Inl e, w))"

definition lift :: "error + 'a \<Rightarrow> ('w, 'a) action" where
  "lift r = (\<lambda>w. (r, w))"

definition andthen :: "('w, 'a) action \<Rightarrow> ('a \<Rightarrow> ('w, 'b) action) \<Rightarrow> ('w, 'b) action" where
  "andthen m f = (\<lambda>w. case m w of (Inl e, w') \<Rightarrow> (Inl e, w') | (Inr x, w') \<Rightarrow> f x w')"

definition reads :: "('w \<Rightarrow> error + 'a) \<Rightarrow> ('w, 'a) action" where
  "reads f = (\<lambda>w. (f w, w))"

definition assign :: "('w \<Rightarrow> 'w) \<Rightarrow> ('w, unit) action" where
  "assign f = (\<lambda>w. (Inr (), f w))"

text \<open>
  A loop over a list that stops at the first exception, threading an accumulator.
\<close>

fun for_each :: "'a list \<Rightarrow> ('a \<Rightarrow> 'b \<Rightarrow> ('w, 'b) action) \<Rightarrow> 'b \<Rightarrow> ('w, 'b) action" where
  "for_each [] body acc = returns acc"
| "for_each (x # xs) body acc = andthen (body x acc) (for_each xs body)"

subsection \<open>Collaborators\<close>

text \<open>
  The functions and classes the methods call that are not among the sources
  (\<^verbatim>\<open>image_processing\<close>, \<^verbatim>\<open>BlobIndex\<close>, \<^verbatim>\<open>process_optics_geometry\<close>,
  \<^verbatim>\<open>SlopeSolver\<close>, \<^verbatim>\<open>Camera\<close>, \<^verbatim>\<open>DotLocationsFixedPattern\<close>) are parameters
  of the model, collected in one record. Each is a function of the values it is
  given; one that can raise returns \<open>Inl\<close>. A collaborator that changes an object it
  was handed (the slope solver refines the surface model in place) returns the
  object's new contents, and the model writes them back to the object's address.
\<close>

type_synonym 'o geometry_result =
  "geometry_general \<times> 'o \<times> geometry_facet list \<times> 'o image_processing_facet list \<times> 'o"

record 'o collaborators =
  detect_blobs :: "image \<Rightarrow> blob_detector_params \<Rightarrow> error + vxy"
  dot_extent :: "'o \<Rightarrow> int \<times> int \<times> int \<times> int"
  BlobIndex_init :: "vxy \<Rightarrow> int \<Rightarrow> int \<Rightarrow> int \<Rightarrow> int \<Rightarrow> error + 'o blob_index_obj"
  BlobIndex_run :: "'o blob_index_obj \<Rightarrow> real \<times> real \<Rightarrow> int \<Rightarrow> int \<Rightarrow> error + 'o blob_index_obj"
  BlobIndex_get_data :: "'o blob_index_obj \<Rightarrow> vxy \<times> (int \<times> int) list"
  BlobIndex_get_data_in_region :: "'o blob_index_obj \<Rightarrow> 'o \<Rightarrow> vxy \<times> (int \<times> int) list"
  calc_mask_raw :: "nat list list list \<Rightarrow> real \<Rightarrow> int \<Rightarrow> int \<Rightarrow> int \<Rightarrow> error + mask_array"
  keep_largest_mask_area :: "mask_array \<Rightarrow> error + mask_array"
  process_singlefacet_geometry ::
    "definition_facet \<Rightarrow> mask_array \<Rightarrow> vec \<Rightarrow> real \<Rightarrow> spatial_orientation \<Rightarrow> 'o \<Rightarrow> 'o \<Rightarrow> 'o
       \<Rightarrow> error + 'o geometry_result"
  process_multifacet_geometry ::
    "definition_facet list \<Rightarrow> definition_ensemble \<Rightarrow> mask_array \<Rightarrow> vec \<Rightarrow> spatial_orientation
       \<Rightarrow> 'o \<Rightarrow> real \<Rightarrow> 'o \<Rightarrow> 'o \<Rightarrow> error + 'o geometry_result"
  xy_indices_to_screen_coordinates :: "'o \<Rightarrow> (int \<times> int) list \<Rightarrow> vec list"
  vector_from_pixel :: "'o \<Rightarrow> vxy \<Rightarrow> vec list"
  SlopeSolver_init :: "(('o, definition_facet) debug_slope_solver, 'o) slope_kwargs \<Rightarrow> error + 'o"
  fit_surface :: "'o \<Rightarrow> 'o \<Rightarrow> error + 'o \<times> 'o"
  solve_slopes :: "'o \<Rightarrow> 'o \<Rightarrow> error + 'o \<times> 'o"
  solver_get_data :: "'o \<Rightarrow> slope_solver_data"

subsection \<open>Construction and measurement loading\<close>

definition init :: "spatial_orientation \<Rightarrow> 'o \<Rightarrow> 'o \<Rightarrow> 'o params_sofast_fixed \<Rightarrow> 'o process_sofast_fixed" where
  "init orientation' camera' fixed_pattern_dot_locs' default_params =
     \<lparr>orientation = orientation',
      camera = camera',
      fixed_pattern_dot_locs = fixed_pattern_dot_locs',
      params = default_params,
      measurement = Unbound,
      blob_detector =
        \<lparr>minDistBetweenBlobs = 2, filterByArea = True, minArea = 3, maxArea = 30,
         filterByCircularity = False, filterByConvexity = False, filterByInertia = False\<rparr>,
      num_facets = PyNone,
      optic_type = PyNone,
      data_facet_def = Unbound,
      data_ensemble_def = Unbound,
      data_surfaces = Unbound,
      data_geometry_general = Unbound,
      data_image_proccessing_general = Unbound,
      data_geometry_facet = Unbound,
      data_image_processing_facet = Unbound,
      data_error = Unbound,
      data_calculation_facet = Unbound,
      data_calculation_ensemble = Unbound,
      slope_solver = Unbound,
      blob_index = Unbound\<rparr>"

definition load_measurement_data :: "measurement_sofast_fixed \<Rightarrow> ('o world, unit) action" where
  "load_measurement_data m = assign (\<lambda>w. w\<lparr>self := (self w)\<lparr>measurement := Val m\<rparr>\<rparr>)"

subsection \<open>Blob finding\<close>

definition find_blobs ::
  "'o collaborators \<Rightarrow> vxy \<Rightarrow> (int \<times> int) list \<Rightarrow> ('o world, 'o blob_index_obj) action" where
  "find_blobs env pts_known xys_known =
     andthen (reads (\<lambda>w. attr_obj ''measurement'' (measurement (self w)))) (\<lambda>m.
     andthen (reads (\<lambda>w. detect_blobs env (image_arr m) (blob_detector (self w)))) (\<lambda>pts_blob.
     andthen (reads (\<lambda>w. case dot_extent env (fixed_pattern_dot_locs (self w)) of
                (x_min, x_max, y_min, y_max) \<Rightarrow> BlobIndex_init env pts_blob x_min x_max y_min y_max)) (\<lambda>b0.
     andthen (reads (\<lambda>w. Inr (b0\<lparr>search_thresh := blob_search_thresh (params (self w))\<rparr>))) (\<lambda>b1.
     andthen (reads (\<lambda>w. Inr (b1\<lparr>bi_search_perp_axis_ratio := search_perp_axis_ratio (params (self w))\<rparr>))) (\<lambda>b2.
     for_each (zip pts_known xys_known)
       (\<lambda>(pt_known, xy_known) b. lift (BlobIndex_run env b pt_known (fst xy_known) (snd xy_known)))
       b2)))))"

subsection \<open>Mask calculation\<close>

definition image_times :: "image \<Rightarrow> nat \<Rightarrow> image" where
  "image_times im k = map (map (\<lambda>p. p * k)) im"

text \<open>
  \<^verbatim>\<open>np.concatenate((a[..., None], b[..., None]), axis=2)\<close> on two arrays of one shape:
  every pixel becomes the list of its value in \<open>a\<close> and its value in \<open>b\<close>.
\<close>

definition concatenate_axis2 :: "image \<Rightarrow> image \<Rightarrow> nat list list list" where
  "concatenate_axis2 a b = map2 (map2 (\<lambda>x y. [x, y])) a b"

definition mask_images :: "measurement_sofast_fixed \<Rightarrow> nat list list list" where
  "mask_images m = (let im_dark = image_times (image_arr m) 0 in concatenate_axis2 im_dark (image_arr m))"

definition mask_raw_of :: "'o collaborators \<Rightarrow> measurement_sofast_fixed \<Rightarrow> params_mask_calculation \<Rightarrow> error + mask_array" where
  "mask_raw_of env m mp =
     calc_mask_raw env (mask_images m) (hist_thresh mp) (filt_width mp) (filt_thresh mp) (thresh_active_pixels mp)"

definition keep_largest_area_warning :: string where
  "keep_largest_area_warning =
     ''\"keep_largest_area\" mask processing option cannot be used for multifacet ensembles. This will be turned off.''"

definition calculate_mask :: "'o collaborators \<Rightarrow> ('o world, mask_array) action" where
  "calculate_mask env =
     andthen (reads (\<lambda>w. attr_obj ''measurement'' (measurement (self w)))) (\<lambda>m.
     andthen (reads (\<lambda>w. mask_raw_of env m (mask (params (self w))))) (\<lambda>mask_raw.
     andthen (reads (\<lambda>w. get_attr ''optic_type'' (optic_type (self w)))) (\<lambda>ot.
     andthen (reads (\<lambda>w. Inr (keep_largest_area (mask (params (self w)))))) (\<lambda>keep.
       if ot = Val ''multi'' \<and> keep then
         andthen (assign (\<lambda>w. w\<lparr>warnings := warnings w @ [keep_largest_area_warning]\<rparr>)) (\<lambda>_.
         andthen (assign (\<lambda>w. w\<lparr>self := (self w)\<lparr>params := (params (self w))
                    \<lparr>mask := (mask (params (self w)))\<lparr>keep_largest_area := False\<rparr>\<rparr>\<rparr>\<rparr>)) (\<lambda>_.
         returns mask_raw))
       else if keep then lift (keep_largest_mask_area env mask_raw)
       else returns mask_raw))))"

subsection \<open>Geometry processing and the slope solver's inputs\<close>

definition process_optic_singlefacet_geometry ::
  "'o collaborators \<Rightarrow> 'o blob_index_obj \<Rightarrow> mask_array \<Rightarrow> ('o world, (debug_ref, addr) slope_kwargs) action" where
  "process_optic_singlefacet_geometry env blob_index' mask_raw =
     andthen (reads (\<lambda>w. attr_val ''data_facet_def'' (data_facet_def (self w)))) (\<lambda>fds.
     andthen (lift (list_get fds 0)) (\<lambda>fd0.
     andthen (reads (\<lambda>w. attr_obj ''measurement'' (measurement (self w)))) (\<lambda>m.
     andthen (reads (\<lambda>w. process_singlefacet_geometry env
                (facet_defs (heap w) fd0) mask_raw (v_measure_point_facet m) (dist_optic_screen m)
                (orientation (self w)) (camera (self w))
                (geometry (params (self w))) (debug_geometry (params (self w))))) (\<lambda>(gg, ipg, gf, ipf, err).
     andthen (assign (\<lambda>w. w\<lparr>self := (self w)
                \<lparr>data_geometry_general := Val gg,
                 data_image_proccessing_general := Val ipg,
                 data_geometry_facet := Val gf,
                 data_image_processing_facet := Val ipf,
                 data_error := Val err\<rparr>\<rparr>)) (\<lambda>_.
     andthen (returns (BlobIndex_get_data env blob_index')) (\<lambda>(pts_image, pts_index_xy).
     andthen (lift (list_get gf 0)) (\<lambda>gf0.
     andthen (reads (\<lambda>w. Inr (orientation (self w)))) (\<lambda>ori.
     let rot_optic_cam = r_optic_cam_refine_1 gg;
         v_cam_optic_cam = v_cam_optic_cam_refine_2 gg;
         u_cam_measure_point_facet' = u_cam_measure_point_facet gf0;
         rot_cam_optic = rot_inv rot_optic_cam;
         rot_optic_screen = rot_mul (r_cam_screen ori) rot_optic_cam;
         rot_screen_optic = rot_inv rot_optic_screen;
         v_optic_cam_optic' = vneg (rot_apply rot_cam_optic v_cam_optic_cam);
         v_cam_screen_optic = rot_apply rot_cam_optic (v_cam_screen_cam ori);
         v_optic_screen_optic' = vadd v_optic_cam_optic' v_cam_screen_optic
     in
     andthen (reads (\<lambda>w. Inr (xy_indices_to_screen_coordinates env (fixed_pattern_dot_locs (self w)) pts_index_xy))) (\<lambda>v_screen_points_screen.
     let v_screen_points_facet' = map (vadd v_optic_screen_optic') (rotate rot_screen_optic v_screen_points_screen) in
     andthen (reads (\<lambda>w. Inr (vector_from_pixel env (camera (self w)) pts_image))) (\<lambda>u_pixel_pointing_cam.
     let u_pixel_pointing_facet = rotate rot_cam_optic u_pixel_pointing_cam in
     andthen (assign (\<lambda>w. w\<lparr>self := (self w)\<lparr>params := (params (self w))
                \<lparr>debug_slope_solver := (debug_slope_solver (params (self w)))\<lparr>optic_data := Val fd0\<rparr>\<rparr>\<rparr>\<rparr>)) (\<lambda>_.
     andthen (reads (\<lambda>w. Inr (v_facet_centroid (facet_defs (heap w) fd0)))) (\<lambda>centroid.
     andthen (reads (\<lambda>w. attr_val ''data_surfaces'' (data_surfaces (self w)))) (\<lambda>sfs.
     andthen (lift (list_get sfs 0)) (\<lambda>sf0.
     returns
       \<lparr>v_optic_cam_optic = v_optic_cam_optic',
        u_active_pixel_pointing_optic = u_pixel_pointing_facet,
        u_measure_pixel_pointing_optic = u_cam_measure_point_facet',
        v_screen_points_facet = v_screen_points_facet',
        v_optic_screen_optic = v_optic_screen_optic',
        v_align_point_optic = centroid,
        kw_dist_optic_screen = dist_optic_screen m,
        kw_debug = Params_debug_slope_solver,
        kw_surface = sf0\<rparr>))))))))))))))"

text \<open>One pass of the loop over the facets in \<^verbatim>\<open>_process_optic_multifacet_geometry\<close>.\<close>

definition multifacet_kwargs ::
  "'o collaborators \<Rightarrow> 'o blob_index_obj \<Rightarrow> nat \<Rightarrow> ('o world, (debug_ref, addr) slope_kwargs) action" where
  "multifacet_kwargs env blob_index' idx_facet =
     andthen (reads (\<lambda>w. attr_val ''data_image_processing_facet'' (data_image_processing_facet (self w)))) (\<lambda>ipf.
     andthen (lift (list_get ipf idx_facet)) (\<lambda>ipf_i.
     andthen (returns (BlobIndex_get_data_in_region env blob_index' (loop_facet_image_refine ipf_i))) (\<lambda>(pts_image, pts_index_xy).
     andthen (reads (\<lambda>w. attr_obj ''data_ensemble_def'' (data_ensemble_def (self w)))) (\<lambda>ed.
     andthen (reads (\<lambda>w. list_get (r_facet_ensemble (ensemble_defs (heap w) ed)) idx_facet)) (\<lambda>rot_facet_ensemble.
     andthen (reads (\<lambda>w. attr_obj ''data_geometry_general'' (data_geometry_general (self w)))) (\<lambda>gg.
     let rot_ensemble_cam = r_optic_cam_refine_2 gg;
         rot_facet_cam = rot_mul rot_ensemble_cam rot_facet_ensemble;
         v_cam_ensemble_cam = v_cam_optic_cam_refine_3 gg
     in
     andthen (reads (\<lambda>w. list_get (v_facet_locations (ensemble_defs (heap w) ed)) idx_facet)) (\<lambda>v_ensemble_facet_ensemble.
     let v_ensemble_facet_cam = rot_apply rot_ensemble_cam v_ensemble_facet_ensemble;
         v_cam_facet_cam = vadd v_cam_ensemble_cam v_ensemble_facet_cam
     in
     andthen (reads (\<lambda>w. attr_val ''data_geometry_facet'' (data_geometry_facet (self w)))) (\<lambda>gf.
     andthen (lift (list_get gf idx_facet)) (\<lambda>gf_i.
     andthen (reads (\<lambda>w. Inr (orientation (self w)))) (\<lambda>ori.
     let u_cam_measure_point_facet' = u_cam_measure_point_facet gf_i;
         rot_cam_facet = rot_inv rot_facet_cam;
         rot_facet_screen = rot_mul (r_cam_screen ori) rot_facet_cam;
         rot_screen_facet = rot_inv rot_facet_screen;
         v_facet_cam_facet = vneg (rot_apply rot_cam_facet v_cam_facet_cam);
         v_cam_screen_facet = rot_apply rot_cam_facet (v_cam_screen_cam ori);
         v_facet_screen_facet = vadd v_facet_cam_facet v_cam_screen_facet
     in
     andthen (reads (\<lambda>w. Inr (xy_indices_to_screen_coordinates env (fixed_pattern_dot_locs (self w)) pts_index_xy))) (\<lambda>v_screen_points_screen.
     let v_screen_points_facet' = map (vadd v_facet_screen_facet) (rotate rot_screen_facet v_screen_points_screen) in
     andthen (reads (\<lambda>w. Inr (vector_from_pixel env (camera (self w)) pts_image))) (\<lambda>u_pixel_pointing_cam.
     let u_pixel_pointing_facet = rotate rot_cam_facet u_pixel_pointing_cam in
     andthen (reads (\<lambda>w. attr_val ''data_facet_def'' (data_facet_def (self w)))) (\<lambda>fds.
     andthen (lift (list_get fds idx_facet)) (\<lambda>fd_i.
     andthen (assign (\<lambda>w. w\<lparr>self := (self w)\<lparr>params := (params (self w))
                \<lparr>debug_slope_solver := (debug_slope_solver (params (self w)))\<lparr>optic_data := Val fd_i\<rparr>\<rparr>\<rparr>\<rparr>)) (\<lambda>_.
     andthen (reads (\<lambda>w. attr_val ''data_surfaces'' (data_surfaces (self w)))) (\<lambda>sfs.
     andthen (lift (list_get sfs idx_facet)) (\<lambda>sf_i.
     returns
       \<lparr>v_optic_cam_optic = v_facet_cam_facet,
        u_active_pixel_pointing_optic = u_pixel_pointing_facet,
        u_measure_pixel_pointing_optic = u_cam_measure_point_facet',
        v_screen_points_facet = v_screen_points_facet',
        v_optic_screen_optic = v_facet_screen_facet,
        v_align_point_optic = v_align_point_facet gf_i,
        kw_dist_optic_screen = measure_point_screen_distance gf_i,
        kw_debug = Params_debug_slope_solver,
        kw_surface = sf_i\<rparr>)))))))))))))))))"

definition process_optic_multifacet_geometry ::
  "'o collaborators \<Rightarrow> 'o blob_index_obj \<Rightarrow> mask_array \<Rightarrow> ('o world, (debug_ref, addr) slope_kwargs list) action" where
  "process_optic_multifacet_geometry env blob_index' mask_raw =
     andthen (reads (\<lambda>w. attr_val ''data_facet_def'' (data_facet_def (self w)))) (\<lambda>fds.
     andthen (reads (\<lambda>w. attr_obj ''data_ensemble_def'' (data_ensemble_def (self w)))) (\<lambda>ed.
     andthen (reads (\<lambda>w. attr_obj ''measurement'' (measurement (self w)))) (\<lambda>m.
     andthen (reads (\<lambda>w. process_multifacet_geometry env
                (map (facet_defs (heap w)) fds) (ensemble_defs (heap w) ed) mask_raw
                (v_measure_point_facet m) (orientation (self w)) (camera (self w)) (dist_optic_screen m)
                (geometry (params (self w))) (debug_geometry (params (self w))))) (\<lambda>(gg, ipg, gf, ipf, err).
     andthen (assign (\<lambda>w. w\<lparr>self := (self w)
                \<lparr>data_geometry_general := Val gg,
                 data_image_proccessing_general := Val ipg,
                 data_geometry_facet := Val gf,
                 data_image_processing_facet := Val ipf,
                 data_error := Val err\<rparr>\<rparr>)) (\<lambda>_.
     andthen (reads (\<lambda>w. attr_val ''num_facets'' (num_facets (self w)))) (\<lambda>n.
     for_each [0 ..< n]
       (\<lambda>idx_facet kwargs_list.
          andthen (multifacet_kwargs env blob_index' idx_facet) (\<lambda>kw. returns (kwargs_list @ [kw])))
       []))))))"

subsection \<open>Slope solving\<close>

definition slope_kwargs_view ::
  "'o world \<Rightarrow> (debug_ref, addr) slope_kwargs \<Rightarrow> (('o, definition_facet) debug_slope_solver, 'o) slope_kwargs" where
  "slope_kwargs_view w kw =
     \<lparr>v_optic_cam_optic = v_optic_cam_optic kw,
      u_active_pixel_pointing_optic = u_active_pixel_pointing_optic kw,
      u_measure_pixel_pointing_optic = u_measure_pixel_pointing_optic kw,
      v_screen_points_facet = v_screen_points_facet kw,
      v_optic_screen_optic = v_optic_screen_optic kw,
      v_align_point_optic = v_align_point_optic kw,
      kw_dist_optic_screen = kw_dist_optic_screen kw,
      kw_debug =
        \<lparr>optic_data = map_attr (facet_defs (heap w)) (optic_data (debug_slope_solver (params (self w)))),
         debug_settings = debug_settings (debug_slope_solver (params (self w)))\<rparr>,
      kw_surface = surfaces (heap w) (kw_surface kw)\<rparr>"

definition set_surface :: "addr \<Rightarrow> 'o \<Rightarrow> 'o world \<Rightarrow> 'o world" where
  "set_surface a c w = w\<lparr>heap := (heap w)\<lparr>surfaces := (surfaces (heap w))(a := c)\<rparr>\<rparr>"

text \<open>
  \<^verbatim>\<open>slope_solver = SlopeSolver(**kwargs); slope_solver.fit_surface();
  slope_solver.solve_slopes()\<close>: the solver refines the surface model it was given in place.
\<close>

definition solve_facet :: "'o collaborators \<Rightarrow> (debug_ref, addr) slope_kwargs \<Rightarrow> ('o world, 'o) action" where
  "solve_facet env kw =
     andthen (reads (\<lambda>w. SlopeSolver_init env (slope_kwargs_view w kw))) (\<lambda>s0.
     andthen (reads (\<lambda>w. fit_surface env s0 (surfaces (heap w) (kw_surface kw)))) (\<lambda>(s1, sf1).
     andthen (assign (set_surface (kw_surface kw) sf1)) (\<lambda>_.
     andthen (reads (\<lambda>w. solve_slopes env s1 (surfaces (heap w) (kw_surface kw)))) (\<lambda>(s2, sf2).
     andthen (assign (set_surface (kw_surface kw) sf2)) (\<lambda>_.
     returns s2)))))"

subsection \<open>Facet pointing (the ensemble aligner)\<close>

text \<open>
  Modelled from the spec: \<^verbatim>\<open>Vxyz.align_to\<close> is not among the sources. The spec says
  of it that it computes ``one global rotation that maps the reference pointing to the
  ensemble's nominal boresight''. It is modelled as the shortest rotation between the
  two directions: with \<open>a\<close> and \<open>b\<close> the vectors scaled to length one, \<open>k = a \<times> b\<close> and
  \<open>c = a \<cdot> b\<close>, the matrix \<open>I + [k] + [k]\<^sup>2 / (1 + c)\<close>. No such rotation is defined
  for a vector of length zero or for opposite directions; the model reports these
  as an error.
\<close>

fun skew :: "vec \<Rightarrow> rot" where
  "skew (x, y, z) = ((0, - z, y), (z, 0, - x), (- y, x, 0))"

definition align_to :: "vec \<Rightarrow> vec \<Rightarrow> error + rot" where
  "align_to v target =
     (if magnitude v = 0 \<or> magnitude target = 0 then Inl (OtherError ''align_to: vector of length zero'')
      else
        let a = normalize v; b = normalize target; k = cross a b; c = dot a b in
        if 1 + c = 0 then Inl (OtherError ''align_to: opposite directions'')
        else Inr (rot_add (rot_add rot_id (skew k)) (rot_scale (1 / (1 + c)) (rot_mul (skew k) (skew k)))))"

text \<open>
  The argument \<^verbatim>\<open>reference\<close>: a string, an integer, or an object of another type.
\<close>

datatype reference = RefStr string | RefInt int | RefOther

fun isinstance_int :: "reference \<Rightarrow> bool" where
  "isinstance_int (RefInt i) = True"
| "isinstance_int _ = False"

text \<open>
  \<^verbatim>\<open>v_pointing_matrix[:, reference]\<close>: numpy counts a negative index from the end
  and raises for an index outside \<open>-n .. n - 1\<close>.
\<close>

definition np_column :: "'a list \<Rightarrow> int \<Rightarrow> error + 'a" where
  "np_column cols i =
     (let n = int (length cols); j = (if i < 0 then n + i else i)
      in if 0 \<le> j \<and> j < n then Inr (cols ! nat j) else Inl (IndexError ''index is out of bounds''))"

definition reference_pointing :: "reference \<Rightarrow> vec list \<Rightarrow> error + vec" where
  "reference_pointing reference v_pointing_matrix =
     (case reference of
        RefInt i \<Rightarrow> np_column v_pointing_matrix i
      | RefStr s \<Rightarrow> if s = ''average'' then Inr (vmean v_pointing_matrix)
                    else Inl (OtherError ''UnboundLocalError'')
      | RefOther \<Rightarrow> Inl (OtherError ''UnboundLocalError''))"

text \<open>
  The first loop's body: the transform of facet \<open>idx\<close> into ensemble coordinates, from
  the facet's placement in the ensemble definition and the alignment the slope solver
  found.
\<close>

definition local_to_ensemble :: "rot \<Rightarrow> vec \<Rightarrow> transform_xyz \<Rightarrow> transform_xyz" where
  "local_to_ensemble r v trans_2 =
     (let trans_1 = from_R_V r v;
          trans_2' = transform_mul (from_V (vneg (trans_V trans_2))) (from_R (rot_inv (trans_R trans_2)))
      in transform_mul trans_2' trans_1)"

definition facet_transform :: "nat \<Rightarrow> ('o world, transform_xyz) action" where
  "facet_transform idx =
     andthen (reads (\<lambda>w. attr_obj ''data_ensemble_def'' (data_ensemble_def (self w)))) (\<lambda>ed.
     andthen (reads (\<lambda>w. list_get (r_facet_ensemble (ensemble_defs (heap w) ed)) idx)) (\<lambda>r.
     andthen (reads (\<lambda>w. list_get (v_facet_locations (ensemble_defs (heap w) ed)) idx)) (\<lambda>v.
     andthen (reads (\<lambda>w. attr_val ''data_calculation_facet'' (data_calculation_facet (self w)))) (\<lambda>dcf.
     andthen (lift (list_get dcf idx)) (\<lambda>d.
     returns (local_to_ensemble r v (trans_alignment d)))))))"

definition slopes_to_ensemble :: "rot \<Rightarrow> (real \<times> real) list \<Rightarrow> (real option \<times> real option) list" where
  "slopes_to_ensemble r slopes =
     (let u_surf_norms = map (\<lambda>(sx, sy). normalize (- sx, - sy, 1)) slopes;
          u_surf_norms_global = rotate r u_surf_norms
      in map (\<lambda>(x, y, z). (np_div (- x) z, np_div (- y) z)) u_surf_norms_global)"

text \<open>The second loop's body: the ensemble record of facet \<open>idx\<close>, appended to the list.\<close>

definition ensemble_record :: "transform_xyz \<Rightarrow> slope_solver_data \<Rightarrow> calculation_facet_ensemble" where
  "ensemble_record t d =
     \<lparr>trans_facet_ensemble = t,
      slopes_ensemble_xy = slopes_to_ensemble (trans_R t) (slopes_facet_xy d),
      v_surf_points_ensemble = transform_apply t (v_surf_points_facet d),
      v_facet_pointing_ensemble = rot_apply (trans_R t) boresight\<rparr>"

definition ensemble_facet :: "transform_xyz list \<Rightarrow> nat \<Rightarrow> ('o world, unit) action" where
  "ensemble_facet trans_facet_ensemble_list idx =
     andthen (reads (\<lambda>w. attr_val ''data_calculation_facet'' (data_calculation_facet (self w)))) (\<lambda>dcf.
     andthen (lift (list_get dcf idx)) (\<lambda>d.
     andthen (lift (list_get trans_facet_ensemble_list idx)) (\<lambda>t.
     andthen (reads (\<lambda>w. attr_val ''data_calculation_ensemble'' (data_calculation_ensemble (self w)))) (\<lambda>dce.
     assign (\<lambda>w. w\<lparr>self := (self w)\<lparr>data_calculation_ensemble := Val (dce @ [ensemble_record t d])\<rparr>\<rparr>)))))"

text \<open>The two loops over the facets.\<close>

definition facet_transforms :: "nat \<Rightarrow> ('o world, transform_xyz list) action" where
  "facet_transforms n =
     for_each [0 ..< n] (\<lambda>idx ts. andthen (facet_transform idx) (\<lambda>t. returns (ts @ [t]))) []"

definition ensemble_facets :: "transform_xyz list \<Rightarrow> nat \<Rightarrow> ('o world, unit) action" where
  "ensemble_facets trans_facet_ensemble_list n =
     for_each [0 ..< n] (\<lambda>idx _. ensemble_facet trans_facet_ensemble_list idx) ()"

definition calculate_facet_pointing :: "reference \<Rightarrow> ('o world, unit) action" where
  "calculate_facet_pointing reference =
     andthen (reads (\<lambda>w. get_attr ''data_calculation_facet'' (data_calculation_facet (self w)))) (\<lambda>dcf.
     andthen (if dcf = PyNone
              then raises (ValueError ''Slopes must be solved first by running \"solve_slopes\".'')
              else returns ()) (\<lambda>_.
     andthen (if reference \<noteq> RefStr ''average'' \<and> \<not> isinstance_int reference
              then raises (ValueError ''Given reference must be int or \"average\".'')
              else returns ()) (\<lambda>_.
     andthen (case reference of
                RefInt i \<Rightarrow>
                  andthen (reads (\<lambda>w. attr_val ''num_facets'' (num_facets (self w)))) (\<lambda>n.
                  if i \<ge> int n then raises (ValueError ''Given facet index is out of range.'')
                  else returns ())
              | _ \<Rightarrow> returns ()) (\<lambda>_.
     andthen (assign (\<lambda>w. w\<lparr>self := (self w)\<lparr>data_calculation_ensemble := Val []\<rparr>\<rparr>)) (\<lambda>_.
     andthen (reads (\<lambda>w. attr_val ''num_facets'' (num_facets (self w)))) (\<lambda>n.
     andthen (facet_transforms n) (\<lambda>ts.
     let v_pointing_matrix = map (\<lambda>t. rot_apply (trans_R t) boresight) ts in
     andthen (lift (reference_pointing reference v_pointing_matrix)) (\<lambda>v_pointing_ref.
     andthen (lift (align_to v_pointing_ref boresight)) (\<lambda>r_align_pointing.
     let trans_align_pointing = from_R r_align_pointing;
         trans_facet_ensemble_list = map (transform_mul trans_align_pointing) ts
     in ensemble_facets trans_facet_ensemble_list n)))))))))"

subsection \<open>Processing a single facet and a facet ensemble\<close>

text \<open>
  Modelled from the spec: \<^verbatim>\<open>DefinitionFacet.copy\<close> and \<^verbatim>\<open>DefinitionEnsemble.copy\<close>
  are not among the sources; a copy is a new object with the contents of the old one.
\<close>

definition copy_facet_def :: "addr \<Rightarrow> ('o world, addr) action" where
  "copy_facet_def a =
     (\<lambda>w. let h = heap w; c = fd_next h
          in (Inr c, w\<lparr>heap := h\<lparr>facet_defs := (facet_defs h)(c := facet_defs h a), fd_next := Suc c\<rparr>\<rparr>))"

definition copy_ensemble_def :: "addr \<Rightarrow> ('o world, addr) action" where
  "copy_ensemble_def a =
     (\<lambda>w. let h = heap w; c = ed_next h
          in (Inr c, w\<lparr>heap := h\<lparr>ensemble_defs := (ensemble_defs h)(c := ensemble_defs h a), ed_next := Suc c\<rparr>\<rparr>))"

text \<open>
  \<^verbatim>\<open>process_single_facet_optic\<close> after its entry assignments: blob finding, mask
  calculation, geometry processing and slope solving.
\<close>

definition single_facet_pipeline ::
  "'o collaborators \<Rightarrow> vxy \<Rightarrow> int \<times> int \<Rightarrow> ('o world, unit) action" where
  "single_facet_pipeline env pt_known xy_known =
     andthen (find_blobs env pt_known [xy_known]) (\<lambda>b.
     andthen (assign (\<lambda>w. w\<lparr>self := (self w)\<lparr>blob_index := Val b\<rparr>\<rparr>)) (\<lambda>_.
     andthen (calculate_mask env) (\<lambda>mask_raw.
     andthen (process_optic_singlefacet_geometry env b mask_raw) (\<lambda>kwargs.
     andthen (solve_facet env kwargs) (\<lambda>slope_solver'.
     andthen (assign (\<lambda>w. w\<lparr>self := (self w)\<lparr>slope_solver := Val [slope_solver']\<rparr>\<rparr>)) (\<lambda>_.
     assign (\<lambda>w. w\<lparr>self := (self w)\<lparr>data_calculation_facet := Val [solver_get_data env slope_solver']\<rparr>\<rparr>)))))))"

definition process_single_facet_optic ::
  "'o collaborators \<Rightarrow> addr \<Rightarrow> addr \<Rightarrow> vxy \<Rightarrow> int \<times> int \<Rightarrow> ('o world, unit) action" where
  "process_single_facet_optic env data_facet_def' surface pt_known xy_known =
     andthen (if length pt_known \<noteq> 1
              then raises (ValueError ''Only 1 pt_known can be given for single facet processing'')
              else returns ()) (\<lambda>_.
     andthen (assign (\<lambda>w. w\<lparr>self := (self w)\<lparr>optic_type := Val ''single''\<rparr>\<rparr>)) (\<lambda>_.
     andthen (assign (\<lambda>w. w\<lparr>self := (self w)\<lparr>num_facets := Val 1\<rparr>\<rparr>)) (\<lambda>_.
     andthen (copy_facet_def data_facet_def') (\<lambda>c.
     andthen (assign (\<lambda>w. w\<lparr>self := (self w)\<lparr>data_facet_def := Val [c]\<rparr>\<rparr>)) (\<lambda>_.
     andthen (assign (\<lambda>w. w\<lparr>self := (self w)\<lparr>data_surfaces := Val [surface]\<rparr>\<rparr>)) (\<lambda>_.
     single_facet_pipeline env pt_known xy_known))))))"

text \<open>
  The slope loop of \<^verbatim>\<open>process_multi_facet_optic\<close>: each pass appends to the two
  lists the instance already holds.
\<close>

definition solve_and_append :: "'o collaborators \<Rightarrow> (debug_ref, addr) slope_kwargs \<Rightarrow> ('o world, unit) action" where
  "solve_and_append env kwargs =
     andthen (solve_facet env kwargs) (\<lambda>slope_solver'.
     andthen (reads (\<lambda>w. attr_val ''slope_solver'' (slope_solver (self w)))) (\<lambda>ss.
     andthen (assign (\<lambda>w. w\<lparr>self := (self w)\<lparr>slope_solver := Val (ss @ [slope_solver'])\<rparr>\<rparr>)) (\<lambda>_.
     andthen (reads (\<lambda>w. attr_val ''data_calculation_facet'' (data_calculation_facet (self w)))) (\<lambda>dcf.
     assign (\<lambda>w. w\<lparr>self := (self w)\<lparr>data_calculation_facet := Val (dcf @ [solver_get_data env slope_solver'])\<rparr>\<rparr>)))))"

text \<open>
  \<^verbatim>\<open>process_multi_facet_optic\<close> after its entry assignments: blob finding, mask
  calculation, geometry processing, slope solving for every facet and facet pointing.
\<close>

definition multi_facet_pipeline ::
  "'o collaborators \<Rightarrow> vxy \<Rightarrow> (int \<times> int) list \<Rightarrow> ('o world, unit) action" where
  "multi_facet_pipeline env pts_known xys_known =
     andthen (find_blobs env pts_known xys_known) (\<lambda>b.
     andthen (assign (\<lambda>w. w\<lparr>self := (self w)\<lparr>blob_index := Val b\<rparr>\<rparr>)) (\<lambda>_.
     andthen (calculate_mask env) (\<lambda>mask_raw.
     andthen (process_optic_multifacet_geometry env b mask_raw) (\<lambda>kwargs_list.
     andthen (assign (\<lambda>w. w\<lparr>self := (self w)\<lparr>slope_solver := Val []\<rparr>\<rparr>)) (\<lambda>_.
     andthen (assign (\<lambda>w. w\<lparr>self := (self w)\<lparr>data_calculation_facet := Val []\<rparr>\<rparr>)) (\<lambda>_.
     andthen (for_each kwargs_list (\<lambda>kwargs _. solve_and_append env kwargs) ()) (\<lambda>_.
     calculate_facet_pointing (RefStr ''average''))))))))"

definition process_multi_facet_optic ::
  "'o collaborators \<Rightarrow> addr list \<Rightarrow> addr list \<Rightarrow> addr \<Rightarrow> vxy \<Rightarrow> (int \<times> int) list \<Rightarrow> ('o world, unit) action" where
  "process_multi_facet_optic env data_facet_def' surfaces' data_ensemble_def' pts_known xys_known =
     andthen (if length data_facet_def' \<noteq> length surfaces'
                 \<and> length surfaces' \<noteq> length pts_known
                 \<and> length pts_known \<noteq> length xys_known
              then raises (ValueError ''Length of data_facet_def does not equal length of data_surfaces'')
              else returns ()) (\<lambda>_.
     andthen (assign (\<lambda>w. w\<lparr>self := (self w)\<lparr>optic_type := Val ''multi''\<rparr>\<rparr>)) (\<lambda>_.
     andthen (assign (\<lambda>w. w\<lparr>self := (self w)\<lparr>num_facets := Val (length data_facet_def')\<rparr>\<rparr>)) (\<lambda>_.
     andthen (for_each data_facet_def'
                (\<lambda>d cs. andthen (copy_facet_def d) (\<lambda>c. returns (cs @ [c]))) []) (\<lambda>cs.
     andthen (assign (\<lambda>w. w\<lparr>self := (self w)\<lparr>data_facet_def := Val cs\<rparr>\<rparr>)) (\<lambda>_.
     andthen (copy_ensemble_def data_ensemble_def') (\<lambda>e.
     andthen (assign (\<lambda>w. w\<lparr>self := (self w)\<lparr>data_ensemble_def := Val e\<rparr>\<rparr>)) (\<lambda>_.
     andthen (assign (\<lambda>w. w\<lparr>self := (self w)\<lparr>data_surfaces := Val surfaces'\<rparr>\<rparr>)) (\<lambda>_.
     multi_facet_pipeline env pts_known xys_known))))))))"

subsection \<open>The optic returned to the caller\<close>

record mirror_point =
  mp_v_surf_pts :: "vec list"
  mp_v_normals :: "vec list"
  mp_shape :: vxy
  mp_interpolation_type :: string

datatype facet = Facet mirror_point

datatype optic = A_Facet facet | A_FacetEnsemble "facet list" "transform_xyz list"

text \<open>
  \<^verbatim>\<open>v_normals_data[:2, :] = slopes\<close>: numpy copies an array of as many columns as
  the target has, repeats a single column, and raises for any other count.
\<close>

definition assign_columns :: "nat \<Rightarrow> 'a list \<Rightarrow> error + 'a list" where
  "assign_columns m cols =
     (if length cols = m then Inr cols
      else if length cols = 1 then Inr (replicate m (hd cols))
      else Inl (ValueError ''could not broadcast input array''))"

definition get_optic_facet :: "string \<Rightarrow> nat \<Rightarrow> ('o world, facet \<times> transform_xyz list) action" where
  "get_optic_facet interpolation_type idx_facet =
     andthen (reads (\<lambda>w. attr_val ''data_calculation_facet'' (data_calculation_facet (self w)))) (\<lambda>dcf.
     andthen (lift (list_get dcf idx_facet)) (\<lambda>d.
     let v_surf_pts = v_surf_points_facet d in
     andthen (lift (assign_columns (length v_surf_pts) (slopes_facet_xy d))) (\<lambda>slopes.
     let v_normals = map (\<lambda>(sx, sy). normalize (- sx, - sy, 1)) slopes in
     andthen (reads (\<lambda>w. attr_val ''data_facet_def'' (data_facet_def (self w)))) (\<lambda>fds.
     andthen (lift (list_get fds idx_facet)) (\<lambda>fd.
     andthen (reads (\<lambda>w. Inr (map (\<lambda>(x, y, z). (x, y)) (v_facet_corners (facet_defs (heap w) fd))))) (\<lambda>shape.
     let mirror = \<lparr>mp_v_surf_pts = v_surf_pts, mp_v_normals = v_normals, mp_shape = shape,
                   mp_interpolation_type = interpolation_type\<rparr> in
     andthen (reads (\<lambda>w. get_attr ''optic_type'' (optic_type (self w)))) (\<lambda>ot.
     if ot = Val ''multi'' then
       andthen (reads (\<lambda>w. attr_val ''data_calculation_ensemble'' (data_calculation_ensemble (self w)))) (\<lambda>dce.
       andthen (lift (list_get dce idx_facet)) (\<lambda>e.
       returns (Facet mirror, [trans_facet_ensemble e])))
     else returns (Facet mirror, []))))))))"

definition get_optic :: "string \<Rightarrow> ('o world, optic) action" where
  "get_optic interpolation_type =
     andthen (reads (\<lambda>w. attr_val ''num_facets'' (num_facets (self w)))) (\<lambda>n.
     andthen (for_each [0 ..< n]
                (\<lambda>idx_facet (facets, trans_list).
                   andthen (get_optic_facet interpolation_type idx_facet) (\<lambda>(f, ts).
                   returns (facets @ [f], trans_list @ ts)))
                ([], [])) (\<lambda>(facets, trans_list).
     andthen (reads (\<lambda>w. get_attr ''optic_type'' (optic_type (self w)))) (\<lambda>ot.
     if ot = Val ''multi'' then returns (A_FacetEnsemble facets trans_list)
     else andthen (lift (list_get facets 0)) (\<lambda>f. returns (A_Facet f)))))"

subsection \<open>Frame conditions of actions\<close>

text \<open>
  \<open>keeps f m\<close>: whatever its outcome, the action \<open>m\<close> leaves the part \<open>f\<close> of the
  world as it found it. \<open>keeps_on_error f m\<close> says so of the runs of \<open>m\<close> that raise.
\<close>

definition keeps :: "('w \<Rightarrow> 'a) \<Rightarrow> ('w, 'b) action \<Rightarrow> bool" where
  "keeps f m = (\<forall>w. f (snd (m w)) = f w)"

definition keeps_on_error :: "('w \<Rightarrow> 'a) \<Rightarrow> ('w, 'b) action \<Rightarrow> bool" where
  "keeps_on_error f m = (\<forall>w. case fst (m w) of Inl e \<Rightarrow> f (snd (m w)) = f w | Inr x \<Rightarrow> True)"

text \<open>The attributes a \<^verbatim>\<open>process_*\<close> call assigns before it starts processing.\<close>

definition entry_attrs ::
  "'o world \<Rightarrow> string attr \<times> nat attr \<times> addr list attr \<times> addr list attr" where
  "entry_attrs w =
     (optic_type (self w), num_facets (self w), data_facet_def (self w), data_surfaces (self w))"

text \<open>The attributes a single-facet call assigns only after the last step that can raise.\<close>

definition slope_attrs :: "'o world \<Rightarrow> 'o list attr \<times> slope_solver_data list attr" where
  "slope_attrs w = (slope_solver (self w), data_calculation_facet (self w))"

text \<open>The facet and ensemble definitions in the store.\<close>

definition definitions_of ::
  "'o world \<Rightarrow> (addr \<Rightarrow> definition_facet) \<times> addr \<times> (addr \<Rightarrow> definition_ensemble) \<times> addr" where
  "definitions_of w =
     (facet_defs (heap w), fd_next (heap w), ensemble_defs (heap w), ed_next (heap w))"

text \<open>
  \<open>with_earlier_results old w\<close>: the world \<open>w\<close> in which the instance holds the results
  of an earlier run, taken from the instance \<open>old\<close>: every attribute a processing call
  assigns, and the facet definition the debugging parameters refer to.
\<close>

definition with_earlier_results :: "'o process_sofast_fixed \<Rightarrow> 'o world \<Rightarrow> 'o world" where
  "with_earlier_results old w =
     w\<lparr>self := (self w)
        \<lparr>optic_type := optic_type old,
         num_facets := num_facets old,
         data_facet_def := data_facet_def old,
         data_surfaces := data_surfaces old,
         blob_index := blob_index old,
         data_geometry_general := data_geometry_general old,
         data_image_proccessing_general := data_image_proccessing_general old,
         data_geometry_facet := data_geometry_facet old,
         data_image_processing_facet := data_image_processing_facet old,
         data_error := data_error old,
         slope_solver := slope_solver old,
         data_calculation_facet := data_calculation_facet old,
         params := (params (self w))
           \<lparr>debug_slope_solver := (debug_slope_solver (params (self w)))
              \<lparr>optic_data := optic_data (debug_slope_solver (params old))\<rparr>\<rparr>\<rparr>\<rparr>"

text \<open>
  \<open>ignores P m\<close>: the action \<open>m\<close> neither reads nor writes what the change \<open>P\<close> of the
  world touches. \<open>replaces P m\<close>: the outcome of \<open>m\<close> does not depend on what \<open>P\<close>
  changed, and a run of \<open>m\<close> that returns has overwritten it.
\<close>

definition ignores :: "('w \<Rightarrow> 'w) \<Rightarrow> ('w, 'a) action \<Rightarrow> bool" where
  "ignores P m = (\<forall>w. m (P w) = (fst (m w), P (snd (m w))))"

definition replaces :: "('w \<Rightarrow> 'w) \<Rightarrow> ('w, 'a) action \<Rightarrow> bool" where
  "replaces P m =
     (\<forall>w. fst (m (P w)) = fst (m w) \<and> (\<forall>x. fst (m w) = Inr x \<longrightarrow> snd (m (P w)) = snd (m w)))"

text \<open>
  The transform of facet \<open>idx\<close> before the pointing correction and the direction its
  optical axis then has in ensemble coordinates, from an ensemble definition and the
  slope solver's data.
\<close>

definition facet_pre_transform :: "definition_ensemble \<Rightarrow> slope_solver_data list \<Rightarrow> nat \<Rightarrow> transform_xyz" where
  "facet_pre_transform ed dcf idx =
     local_to_ensemble (r_facet_ensemble ed ! idx) (v_facet_locations ed ! idx) (trans_alignment (dcf ! idx))"

definition facet_pointing :: "definition_ensemble \<Rightarrow> slope_solver_data list \<Rightarrow> nat \<Rightarrow> vec" where
  "facet_pointing ed dcf idx = rot_apply (trans_R (facet_pre_transform ed dcf idx)) boresight"

text \<open>
  The ensemble slope of one pixel as the claim words it: the direction of
  \<open>(-sx, -sy, 1)\<close>, rotated, and the negated x and y components of the result divided
  by its z component.
\<close>

definition slopes_global :: "rot \<Rightarrow> real \<times> real \<Rightarrow> real option \<times> real option" where
  "slopes_global r s =
     (let n = normalize (- fst s, - snd s, 1);
          rn = rot_apply r n
      in (np_div (- fst rn) (snd (snd rn)), np_div (- fst (snd rn)) (snd (snd rn))))"

subsection \<open>Example collaborators and worlds\<close>

text \<open>
  Collaborators over the natural numbers, used to run the model on concrete inputs.
  The raw mask marks the pixels brighter than the dark image; the geometry solvers
  raise for a mask with no active pixel.
\<close>

definition example_geometry ::
  "nat \<Rightarrow> mask_array \<Rightarrow> real \<Rightarrow> error + nat geometry_result" where
  "example_geometry n mask_raw d =
     (if list_ex (list_ex id) mask_raw
      then Inr (\<lparr>r_optic_cam_refine_1 = rot_id, v_cam_optic_cam_refine_2 = (0, 0, 1),
                 r_optic_cam_refine_2 = rot_id, v_cam_optic_cam_refine_3 = (0, 0, 1)\<rparr>,
                0,
                replicate n \<lparr>u_cam_measure_point_facet = (0, 0, 1), v_align_point_facet = (0, 0, 0),
                             measure_point_screen_distance = d\<rparr>,
                replicate n \<lparr>loop_facet_image_refine = 0\<rparr>,
                0)
      else Inl (ValueError ''mask is empty''))"

definition example_slope_data :: slope_solver_data where
  "example_slope_data =
     \<lparr>trans_alignment = from_R rot_id, slopes_facet_xy = [(0, 0), (3 / 4, 0)],
      v_surf_points_facet = [(0, 0, 0), (1, 0, 0)]\<rparr>"

definition example_env :: "nat collaborators" where
  "example_env =
     \<lparr>detect_blobs = (\<lambda>im bd. Inr [(1, 1)]),
      dot_extent = (\<lambda>dl. (0, 1, 0, 1)),
      BlobIndex_init = (\<lambda>pts x_min x_max y_min y_max.
         Inr \<lparr>search_thresh = 0, bi_search_perp_axis_ratio = 0, bi_points = length pts\<rparr>),
      BlobIndex_run = (\<lambda>b pt x y. Inr b),
      BlobIndex_get_data = (\<lambda>b. ([(1, 1)], [(0, 0)])),
      BlobIndex_get_data_in_region = (\<lambda>b region. ([(1, 1)], [(0, 0)])),
      calc_mask_raw = (\<lambda>images h fw ft ta. Inr (map (map (\<lambda>px. px ! 0 < px ! 1)) images)),
      keep_largest_mask_area = (\<lambda>m. Inr (take 1 m)),
      process_singlefacet_geometry = (\<lambda>fd mask_raw v d ori cam g dg. example_geometry 1 mask_raw d),
      process_multifacet_geometry = (\<lambda>fds ed mask_raw v ori cam d g dg. example_geometry (length fds) mask_raw d),
      xy_indices_to_screen_coordinates = (\<lambda>dl idx. map (\<lambda>(i, j). (real_of_int i, real_of_int j, 0)) idx),
      vector_from_pixel = (\<lambda>cam pts. map (\<lambda>p. (0, 0, 1)) pts),
      SlopeSolver_init = (\<lambda>kw. Inr 0),
      fit_surface = (\<lambda>s sf. Inr (Suc s, Suc sf)),
      solve_slopes = (\<lambda>s sf. Inr (Suc s, sf)),
      solver_get_data = (\<lambda>s. example_slope_data)\<rparr>"

definition example_params :: "nat params_sofast_fixed" where
  "example_params =
     \<lparr>blob_search_thresh = 5, search_perp_axis_ratio = 3,
      mask = \<lparr>hist_thresh = 1 / 2, filt_width = 9, filt_thresh = 4, thresh_active_pixels = 1,
              keep_largest_area = True\<rparr>,
      geometry = 0,
      debug_slope_solver = \<lparr>optic_data = PyNone, debug_settings = 0\<rparr>,
      debug_geometry = 0\<rparr>"

text \<open>A rotation about the y axis that tilts the boresight to \<open>(24/25, 0, 7/25)\<close>.\<close>

definition tilt :: rot where
  "tilt = ((7 / 25, 0, 24 / 25), (0, 1, 0), (- 24 / 25, 0, 7 / 25))"

definition example_heap :: "nat store" where
  "example_heap =
     \<lparr>facet_defs = (\<lambda>a. \<lparr>v_facet_corners = [(0, 0, 0), (1, 0, 0), (1, 1, 0), (0, 1, 0)],
                          v_facet_centroid = (1 / 2, 1 / 2, 0)\<rparr>),
      fd_next = 1,
      ensemble_defs = (\<lambda>a. \<lparr>r_facet_ensemble = [rot_id, tilt],
                             v_facet_locations = [(0, 0, 0), (2, 0, 0)]\<rparr>),
      ed_next = 1,
      surfaces = (\<lambda>a. 0)\<rparr>"

definition example_measurement :: measurement_sofast_fixed where
  "example_measurement =
     \<lparr>image_arr = [[0, 9], [9, 9]], v_measure_point_facet = (0, 0, 0), dist_optic_screen = 10\<rparr>"

definition dark_measurement :: measurement_sofast_fixed where
  "dark_measurement =
     \<lparr>image_arr = [[0, 0], [0, 0]], v_measure_point_facet = (0, 0, 0), dist_optic_screen = 10\<rparr>"

definition example_orientation :: spatial_orientation where
  "example_orientation = \<lparr>r_cam_screen = rot_id, v_cam_screen_cam = (0, 1, 0)\<rparr>"

text \<open>A new instance with a measurement loaded, and the objects of its caller.\<close>

definition example_world :: "measurement_sofast_fixed \<Rightarrow> nat world" where
  "example_world m =
     \<lparr>self = (init example_orientation 0 0 example_params)\<lparr>measurement := Val m\<rparr>,
      heap = example_heap,
      warnings = []\<rparr>"

text \<open>The same instance while an optic of the given type is processed.\<close>

definition optic_world :: "string \<Rightarrow> nat world" where
  "optic_world t =
     (example_world example_measurement)
       \<lparr>self := (self (example_world example_measurement))\<lparr>optic_type := Val t\<rparr>\<rparr>"

text \<open>
  An instance on which the slopes of two facets have been solved: the first facet is
  placed untilted, the second tilted.
\<close>

definition pointing_world :: "nat world" where
  "pointing_world =
     (example_world example_measurement)
       \<lparr>self := (self (example_world example_measurement))
          \<lparr>optic_type := Val ''multi'', num_facets := Val 2, data_ensemble_def := Val 0,
           data_calculation_facet := Val [example_slope_data, example_slope_data]\<rparr>\<rparr>"

section \<open>Properties\<close>

subsection \<open>Frame rules\<close>

lemma keepsD: "keeps f m \<Longrightarrow> f (snd (m w)) = f w"
  by (simp add: keeps_def)

lemma keeps_returns [intro!]: "keeps f (returns x)"
  by (simp add: keeps_def returns_def)

lemma keeps_raises [intro!]: "keeps f (raises e)"
  by (simp add: keeps_def raises_def)

lemma keeps_lift [intro!]: "keeps f (lift r)"
  by (simp add: keeps_def lift_def)

lemma keeps_reads [intro!]: "keeps f (reads g)"
  by (simp add: keeps_def reads_def)

lemma keeps_assign: "(\<And>w. f (g w) = f w) \<Longrightarrow> keeps f (assign g)"
  by (simp add: keeps_def assign_def)

lemma keeps_andthen [intro!]: "keeps f m \<Longrightarrow> (\<And>x. keeps f (k x)) \<Longrightarrow> keeps f (andthen m k)"
  by (auto simp: keeps_def andthen_def split: prod.splits sum.splits) (metis snd_conv)+

lemma keeps_if [intro!]: "keeps f a \<Longrightarrow> keeps f b \<Longrightarrow> keeps f (if c then a else b)"
  by simp

lemma keeps_for_each [intro!]: "(\<And>x a. keeps f (body x a)) \<Longrightarrow> keeps f (for_each xs body acc)"
  by (induction xs arbitrary: acc) auto

lemma keeps_on_errorD: "keeps_on_error f m \<Longrightarrow> fst (m w) = Inl e \<Longrightarrow> f (snd (m w)) = f w"
  unfolding keeps_on_error_def by (drule spec [of _ w]) simp

lemma keeps_on_error_andthen:
  assumes "keeps f m" and "\<And>x. keeps_on_error f (k x)"
  shows "keeps_on_error f (andthen m k)"
  unfolding keeps_on_error_def
proof
  fix w
  obtain r w' where mw: "m w = (r, w')" by (cases "m w")
  have fw': "f w' = f w" using assms(1) mw by (auto simp: keeps_def dest: spec [of _ w])
  show "case fst (andthen m k w) of Inl e \<Rightarrow> f (snd (andthen m k w)) = f w | Inr x \<Rightarrow> True"
  proof (cases r)
    case (Inl e)
    then show ?thesis using mw fw' by (simp add: andthen_def)
  next
    case (Inr x)
    have "case fst (k x w') of Inl e \<Rightarrow> f (snd (k x w')) = f w' | Inr y \<Rightarrow> True"
      using assms(2) [of x] unfolding keeps_on_error_def by (rule spec)
    then show ?thesis using mw fw' Inr by (simp add: andthen_def split: sum.splits)
  qed
qed

lemma keeps_on_error_assign: "keeps_on_error f (assign g)"
  by (simp add: keeps_on_error_def assign_def)

lemma keeps_on_error_assign2: "keeps_on_error f (andthen (assign g) (\<lambda>_. assign h))"
  by (simp add: keeps_on_error_def assign_def andthen_def)

subsection \<open>What each step changes\<close>

lemma keeps_find_blobs: "keeps f (find_blobs env p x)"
  unfolding find_blobs_def by (auto split: prod.splits)

lemma keeps_calculate_mask:
  assumes "\<And>w ws. f (w\<lparr>warnings := ws\<rparr>) = f w"
    and "\<And>w. f (w\<lparr>self := (self w)\<lparr>params := (params (self w))
                    \<lparr>mask := (mask (params (self w)))\<lparr>keep_largest_area := False\<rparr>\<rparr>\<rparr>\<rparr>) = f w"
  shows "keeps f (calculate_mask env)"
  unfolding calculate_mask_def
  by (intro keeps_andthen keeps_reads keeps_if keeps_returns keeps_lift keeps_assign assms)

lemma keeps_singlefacet_geometry:
  assumes "\<And>w gg ipg gf ipf err. f (w\<lparr>self := (self w)
                \<lparr>data_geometry_general := gg,
                 data_image_proccessing_general := ipg,
                 data_geometry_facet := gf,
                 data_image_processing_facet := ipf,
                 data_error := err\<rparr>\<rparr>) = f w"
    and "\<And>w x. f (w\<lparr>self := (self w)\<lparr>params := (params (self w))
                \<lparr>debug_slope_solver := (debug_slope_solver (params (self w)))\<lparr>optic_data := x\<rparr>\<rparr>\<rparr>\<rparr>) = f w"
  shows "keeps f (process_optic_singlefacet_geometry env b m)"
  unfolding process_optic_singlefacet_geometry_def Let_def
  by (auto intro!: keeps_assign assms split: prod.splits)

lemma keeps_solve_facet:
  assumes "\<And>w a c. f (set_surface a c w) = f w"
  shows "keeps f (solve_facet env kw)"
  unfolding solve_facet_def
  by (auto intro!: keeps_assign assms split: prod.splits)

lemma keeps_multifacet_kwargs:
  assumes "\<And>w x. f (w\<lparr>self := (self w)\<lparr>params := (params (self w))
                \<lparr>debug_slope_solver := (debug_slope_solver (params (self w)))\<lparr>optic_data := x\<rparr>\<rparr>\<rparr>\<rparr>) = f w"
  shows "keeps f (multifacet_kwargs env b i)"
  unfolding multifacet_kwargs_def Let_def
  by (auto intro!: keeps_assign assms split: prod.splits)

lemma keeps_multifacet_geometry:
  assumes "\<And>w gg ipg gf ipf err. f (w\<lparr>self := (self w)
                \<lparr>data_geometry_general := gg,
                 data_image_proccessing_general := ipg,
                 data_geometry_facet := gf,
                 data_image_processing_facet := ipf,
                 data_error := err\<rparr>\<rparr>) = f w"
    and "\<And>w x. f (w\<lparr>self := (self w)\<lparr>params := (params (self w))
                \<lparr>debug_slope_solver := (debug_slope_solver (params (self w)))\<lparr>optic_data := x\<rparr>\<rparr>\<rparr>\<rparr>) = f w"
  shows "keeps f (process_optic_multifacet_geometry env b m)"
  unfolding process_optic_multifacet_geometry_def
  by (auto intro!: keeps_assign keeps_multifacet_kwargs assms split: prod.splits)

lemma keeps_solve_and_append:
  assumes "\<And>w a c. f (set_surface a c w) = f w"
    and "\<And>w x. f (w\<lparr>self := (self w)\<lparr>slope_solver := x\<rparr>\<rparr>) = f w"
    and "\<And>w x. f (w\<lparr>self := (self w)\<lparr>data_calculation_facet := x\<rparr>\<rparr>) = f w"
  shows "keeps f (solve_and_append env kw)"
  unfolding solve_and_append_def
  by (auto intro!: keeps_assign keeps_solve_facet assms)

lemma keeps_facet_transform: "keeps f (facet_transform idx)"
  unfolding facet_transform_def Let_def by auto

lemma keeps_ensemble_facet:
  assumes "\<And>w x. f (w\<lparr>self := (self w)\<lparr>data_calculation_ensemble := x\<rparr>\<rparr>) = f w"
  shows "keeps f (ensemble_facet ts idx)"
  unfolding ensemble_facet_def Let_def
  by (auto intro!: keeps_assign assms)

lemma keeps_calculate_facet_pointing:
  assumes "\<And>w x. f (w\<lparr>self := (self w)\<lparr>data_calculation_ensemble := x\<rparr>\<rparr>) = f w"
  shows "keeps f (calculate_facet_pointing reference)"
  unfolding calculate_facet_pointing_def facet_transforms_def ensemble_facets_def Let_def
  by (auto intro!: keeps_assign keeps_facet_transform keeps_ensemble_facet assms split: reference.splits)


subsection \<open>The steps of the two processing methods\<close>

lemma andthen_result: "m w = (Inr x, w') \<Longrightarrow> andthen m k w = k x w'"
  by (simp add: andthen_def)

lemma andthen_assign: "andthen (assign g) k w = k () (g w)"
  by (simp add: andthen_def assign_def)

lemma andthen_returns: "andthen (returns x) k = k x"
  by (simp add: andthen_def returns_def)

lemma copy_loop:
  "\<exists>F. for_each ds (\<lambda>d cs. andthen (copy_facet_def d) (\<lambda>c. returns (cs @ [c]))) acc w =
      (Inr (acc @ [fd_next (heap w) ..< fd_next (heap w) + length ds]),
       w\<lparr>heap := (heap w)\<lparr>facet_defs := F, fd_next := fd_next (heap w) + length ds\<rparr>\<rparr>)
    \<and> (\<forall>a < fd_next (heap w). F a = facet_defs (heap w) a)
    \<and> (\<forall>i < length ds. ds ! i < fd_next (heap w) \<longrightarrow> F (fd_next (heap w) + i) = facet_defs (heap w) (ds ! i))"
proof (induction ds arbitrary: acc w)
  case Nil
  show ?case
    by (rule exI [of _ "facet_defs (heap w)"]) (simp add: returns_def)
next
  case (Cons d ds)
  let ?N = "fd_next (heap w)"
  let ?w1 = "w\<lparr>heap := (heap w)\<lparr>facet_defs := (facet_defs (heap w))(?N := facet_defs (heap w) d), fd_next := Suc ?N\<rparr>\<rparr>"
  from Cons.IH [of "acc @ [?N]" ?w1] obtain F where
    run: "for_each ds (\<lambda>d cs. andthen (copy_facet_def d) (\<lambda>c. returns (cs @ [c]))) (acc @ [?N]) ?w1 =
      (Inr ((acc @ [?N]) @ [Suc ?N ..< Suc ?N + length ds]),
       ?w1\<lparr>heap := (heap ?w1)\<lparr>facet_defs := F, fd_next := Suc ?N + length ds\<rparr>\<rparr>)"
    and old: "\<forall>a < Suc ?N. F a = facet_defs (heap ?w1) a"
    and new: "\<forall>i < length ds. ds ! i < Suc ?N \<longrightarrow> F (Suc ?N + i) = facet_defs (heap ?w1) (ds ! i)"
    by auto
  have upt: "[?N ..< ?N + length (d # ds)] = ?N # [Suc ?N ..< Suc ?N + length ds]"
    using upt_conv_Cons [of ?N "?N + length (d # ds)"] by simp
  have step: "for_each (d # ds) (\<lambda>d cs. andthen (copy_facet_def d) (\<lambda>c. returns (cs @ [c]))) acc w =
      for_each ds (\<lambda>d cs. andthen (copy_facet_def d) (\<lambda>c. returns (cs @ [c]))) (acc @ [?N]) ?w1"
    by (simp add: andthen_def copy_facet_def_def returns_def Let_def)
  show ?case
  proof (intro exI [of _ F] conjI allI impI)
    show "for_each (d # ds) (\<lambda>d cs. andthen (copy_facet_def d) (\<lambda>c. returns (cs @ [c]))) acc w =
      (Inr (acc @ [?N ..< ?N + length (d # ds)]),
       w\<lparr>heap := (heap w)\<lparr>facet_defs := F, fd_next := ?N + length (d # ds)\<rparr>\<rparr>)"
      unfolding step run upt by simp
  next
    fix a assume "a < ?N"
    then show "F a = facet_defs (heap w) a" using old by simp
  next
    fix i assume i: "i < length (d # ds)" and lt: "(d # ds) ! i < ?N"
    show "F (?N + i) = facet_defs (heap w) ((d # ds) ! i)"
    proof (cases i)
      case 0
      then show ?thesis using old by simp
    next
      case (Suc j)
      then show ?thesis using new i lt by simp
    qed
  qed
qed

lemma single_rest_keeps_entry:
  "keeps entry_attrs (single_facet_pipeline env pt_known xy)"
  unfolding single_facet_pipeline_def
  by (intro keeps_andthen keeps_find_blobs keeps_calculate_mask keeps_singlefacet_geometry
        keeps_solve_facet keeps_assign)
      (simp_all add: entry_attrs_def set_surface_def)

lemma single_rest_keeps_slope_on_error:
  "keeps_on_error slope_attrs (single_facet_pipeline env pt_known xy)"
  unfolding single_facet_pipeline_def
  by (intro keeps_on_error_andthen keeps_on_error_assign2 keeps_find_blobs keeps_calculate_mask
        keeps_singlefacet_geometry keeps_solve_facet keeps_assign)
      (simp_all add: slope_attrs_def set_surface_def)

lemma multi_rest_keeps_entry:
  "keeps (\<lambda>w. (entry_attrs w, data_ensemble_def (self w)))
     (multi_facet_pipeline env pts_known xys_known)"
  unfolding multi_facet_pipeline_def
  by (intro keeps_andthen keeps_find_blobs keeps_calculate_mask keeps_multifacet_geometry
        keeps_for_each keeps_solve_and_append keeps_calculate_facet_pointing keeps_assign)
      (simp_all add: entry_attrs_def set_surface_def)

lemma andthen_copy_facet_def:
  "andthen (copy_facet_def a) k w =
     k (fd_next (heap w))
       (w\<lparr>heap := (heap w)\<lparr>facet_defs := (facet_defs (heap w))(fd_next (heap w) := facet_defs (heap w) a),
                          fd_next := Suc (fd_next (heap w))\<rparr>\<rparr>)"
  by (simp add: andthen_def copy_facet_def_def Let_def)

lemma andthen_copy_ensemble_def:
  "andthen (copy_ensemble_def a) k w =
     k (ed_next (heap w))
       (w\<lparr>heap := (heap w)\<lparr>ensemble_defs := (ensemble_defs (heap w))(ed_next (heap w) := ensemble_defs (heap w) a),
                          ed_next := Suc (ed_next (heap w))\<rparr>\<rparr>)"
  by (simp add: andthen_def copy_ensemble_def_def Let_def)

lemma single_after_check:
  assumes "length pt_known = 1"
  shows "process_single_facet_optic env fd sf pt_known xy w =
     (single_facet_pipeline env pt_known xy)
     (w\<lparr>heap := (heap w)\<lparr>facet_defs := (facet_defs (heap w))(fd_next (heap w) := facet_defs (heap w) fd),
                          fd_next := Suc (fd_next (heap w))\<rparr>,
        self := (self w)\<lparr>optic_type := Val ''single'', num_facets := Val 1,
            data_facet_def := Val [fd_next (heap w)], data_surfaces := Val [sf]\<rparr>\<rparr>)"
  using assms
  by (simp add: process_single_facet_optic_def andthen_assign andthen_returns andthen_copy_facet_def)


lemma multi_after_check:
  assumes "\<not> (length fds \<noteq> length sfs \<and> length sfs \<noteq> length pts_known \<and> length pts_known \<noteq> length xys_known)"
  shows "\<exists>F. process_multi_facet_optic env fds sfs ed pts_known xys_known w =
     (multi_facet_pipeline env pts_known xys_known)
     (w\<lparr>heap := (heap w)\<lparr>facet_defs := F, fd_next := fd_next (heap w) + length fds,
                          ensemble_defs := (ensemble_defs (heap w))(ed_next (heap w) := ensemble_defs (heap w) ed),
                          ed_next := Suc (ed_next (heap w))\<rparr>,
        self := (self w)\<lparr>optic_type := Val ''multi'', num_facets := Val (length fds),
            data_facet_def := Val [fd_next (heap w) ..< fd_next (heap w) + length fds],
            data_ensemble_def := Val (ed_next (heap w)),
            data_surfaces := Val sfs\<rparr>\<rparr>)
    \<and> (\<forall>a < fd_next (heap w). F a = facet_defs (heap w) a)
    \<and> (\<forall>i < length fds. fds ! i < fd_next (heap w) \<longrightarrow> F (fd_next (heap w) + i) = facet_defs (heap w) (fds ! i))"
proof -
  let ?w2 = "w\<lparr>self := (self w)\<lparr>optic_type := Val ''multi'', num_facets := Val (length fds)\<rparr>\<rparr>"
  from copy_loop [of fds "[]" ?w2] obtain F where
    run: "for_each fds (\<lambda>d cs. andthen (copy_facet_def d) (\<lambda>c. returns (cs @ [c]))) [] ?w2 =
      (Inr ([] @ [fd_next (heap ?w2) ..< fd_next (heap ?w2) + length fds]),
       ?w2\<lparr>heap := (heap ?w2)\<lparr>facet_defs := F, fd_next := fd_next (heap ?w2) + length fds\<rparr>\<rparr>)"
    and old: "\<forall>a < fd_next (heap ?w2). F a = facet_defs (heap ?w2) a"
    and new: "\<forall>i < length fds. fds ! i < fd_next (heap ?w2) \<longrightarrow> F (fd_next (heap ?w2) + i) = facet_defs (heap ?w2) (fds ! i)"
    by blast
  show ?thesis
  proof (intro exI [of _ F] conjI)
    show "\<forall>a < fd_next (heap w). F a = facet_defs (heap w) a" using old by simp
    show "\<forall>i < length fds. fds ! i < fd_next (heap w) \<longrightarrow> F (fd_next (heap w) + i) = facet_defs (heap w) (fds ! i)"
      using new by simp
  next
    show "process_multi_facet_optic env fds sfs ed pts_known xys_known w =
     (multi_facet_pipeline env pts_known xys_known)
     (w\<lparr>heap := (heap w)\<lparr>facet_defs := F, fd_next := fd_next (heap w) + length fds,
                          ensemble_defs := (ensemble_defs (heap w))(ed_next (heap w) := ensemble_defs (heap w) ed),
                          ed_next := Suc (ed_next (heap w))\<rparr>,
        self := (self w)\<lparr>optic_type := Val ''multi'', num_facets := Val (length fds),
            data_facet_def := Val [fd_next (heap w) ..< fd_next (heap w) + length fds],
            data_ensemble_def := Val (ed_next (heap w)),
            data_surfaces := Val sfs\<rparr>\<rparr>)"
      unfolding process_multi_facet_optic_def if_not_P [OF assms]
      by (simp add: andthen_assign andthen_returns andthen_copy_ensemble_def
          andthen_result [of "for_each fds (\<lambda>d cs. andthen (copy_facet_def d) (\<lambda>c. returns (cs @ [c]))) []" ?w2, OF run])
  qed
qed

lemma single_rest_keeps_definitions:
  "keeps definitions_of (single_facet_pipeline env pt_known xy)"
  unfolding single_facet_pipeline_def
  by (intro keeps_andthen keeps_find_blobs keeps_calculate_mask keeps_singlefacet_geometry
        keeps_solve_facet keeps_assign)
      (simp_all add: definitions_of_def set_surface_def)

lemma multi_rest_keeps_definitions:
  "keeps definitions_of
     (multi_facet_pipeline env pts_known xys_known)"
  unfolding multi_facet_pipeline_def
  by (intro keeps_andthen keeps_find_blobs keeps_calculate_mask keeps_multifacet_geometry
        keeps_for_each keeps_solve_and_append keeps_calculate_facet_pointing keeps_assign)
      (simp_all add: definitions_of_def set_surface_def)

lemma single_entry_attrs:
  assumes "length pt_known = 1"
  shows "entry_attrs (snd (process_single_facet_optic env fd sf pt_known xy w)) =
           (Val ''single'', Val 1, Val [fd_next (heap w)], Val [sf])"
  unfolding single_after_check [OF assms]
  using keepsD [OF single_rest_keeps_entry, of env pt_known xy]
  by (simp add: entry_attrs_def)

subsection \<open>Mask calculation\<close>

text \<open>
  C6. While a facet ensemble is processed (\<open>optic_type\<close> is \<^verbatim>\<open>'multi'\<close>) with
  \<open>keep_largest_area\<close> set, the mask calculation logs a warning, turns the option off
  and returns the raw mask as \<^verbatim>\<open>calc_mask_raw\<close> computed it, with no exception; for a
  single facet with the option set the result is that of \<^verbatim>\<open>keep_largest_mask_area\<close>
  on the raw mask.
\<close>

theorem calculate_mask_keep_largest_area:
  assumes "measurement (self w) = Val m"
    and "keep_largest_area (mask (params (self w)))"
    and "mask_raw_of env m (mask (params (self w))) = Inr raw"
  shows "(optic_type (self w) = Val ''multi'' \<longrightarrow>
            calculate_mask env w =
              (Inr raw,
               w\<lparr>warnings := warnings w @ [keep_largest_area_warning],
                 self := (self w)\<lparr>params := (params (self w))
                    \<lparr>mask := (mask (params (self w)))\<lparr>keep_largest_area := False\<rparr>\<rparr>\<rparr>\<rparr>))
       \<and> (optic_type (self w) = Val ''single'' \<longrightarrow>
            calculate_mask env w = (keep_largest_mask_area env raw, w))"
  using assms
  by (simp add: calculate_mask_def returns_def lift_def andthen_def reads_def assign_def
      attr_obj_def get_attr_def)

lemma example_mask_raw:
  "mask_raw_of example_env example_measurement (mask example_params) = Inr [[False, True], [True, True]]"
  by (simp add: mask_raw_of_def example_env_def example_measurement_def mask_images_def
      image_times_def concatenate_axis2_def)

theorem calculate_mask_keep_largest_area_witness:
  "fst (calculate_mask example_env
          ((example_world example_measurement)\<lparr>self := (self (example_world example_measurement))\<lparr>optic_type := Val ''multi''\<rparr>\<rparr>))
     = Inr [[False, True], [True, True]]
   \<and> fst (calculate_mask example_env
          ((example_world example_measurement)\<lparr>self := (self (example_world example_measurement))\<lparr>optic_type := Val ''single''\<rparr>\<rparr>))
     = Inr [[False, True]]"
proof -
  let ?w = "\<lambda>t. (example_world example_measurement)\<lparr>self := (self (example_world example_measurement))\<lparr>optic_type := Val t\<rparr>\<rparr>"
  have m: "measurement (self (?w t)) = Val example_measurement" for t
    by (simp add: example_world_def)
  have k: "keep_largest_area (mask (params (self (?w t))))" for t
    by (simp add: example_world_def init_def example_params_def)
  have r: "mask_raw_of example_env example_measurement (mask (params (self (?w t)))) = Inr [[False, True], [True, True]]" for t
    using example_mask_raw by (simp add: example_world_def init_def)
  show ?thesis
    using calculate_mask_keep_largest_area [OF m k r, of "''multi''"]
      calculate_mask_keep_largest_area [OF m k r, of "''single''"]
    by (simp add: example_env_def)
qed

text \<open>
  C10, as the claim states it, fails: the mask the method returns is not determined
  by the measurement image and the mask parameters alone. With the same measurement
  and the same mask parameters (\<open>keep_largest_area\<close> set), the mask of a single facet
  is the largest area of the raw mask, the mask of a facet ensemble the raw mask.
\<close>

theorem mask_depends_on_optic_type_counterexample:
  "measurement (self (optic_world ''single'')) = measurement (self (optic_world ''multi''))
   \<and> mask (params (self (optic_world ''single''))) = mask (params (self (optic_world ''multi'')))
   \<and> fst (calculate_mask example_env (optic_world ''single'')) = Inr [[False, True]]
   \<and> fst (calculate_mask example_env (optic_world ''multi'')) = Inr [[False, True], [True, True]]"
  by (simp add: optic_world_def example_world_def init_def example_params_def example_env_def
      example_measurement_def calculate_mask_def mask_raw_of_def mask_images_def image_times_def
      concatenate_axis2_def returns_def lift_def andthen_def reads_def assign_def attr_obj_def
      get_attr_def)

text \<open>
  C10, amended. With a measurement loaded, the outcome of the mask calculation is
  that of \<^verbatim>\<open>calc_mask_raw\<close> on the image pair that holds, for every pixel, the value \<open>0\<close>
  (the dark image: the measurement image times zero) and the pixel of the measurement
  image, with the four thresholds of the mask parameters; if that raises, so does the
  method; otherwise the raw mask is filtered by \<^verbatim>\<open>keep_largest_mask_area\<close> when
  \<open>keep_largest_area\<close> is set and the optic type is not \<^verbatim>\<open>'multi'\<close>, and returned as it is
  in every other case. So the mask is a function of the measurement image, the mask
  parameters and the optic type: nothing else of the instance or of the measurement,
  and no other image, enters.
\<close>

theorem calculate_mask_of_image_pair:
  assumes "measurement (self w) = Val m"
    and "mask (params (self w)) = mp"
    and "optic_type (self w) = ot"
  shows "fst (calculate_mask env w) =
     (case calc_mask_raw env (map (map (\<lambda>p. [0, p])) (image_arr m))
             (hist_thresh mp) (filt_width mp) (filt_thresh mp) (thresh_active_pixels mp) of
        Inl e \<Rightarrow> Inl e
      | Inr raw \<Rightarrow>
          if ot = Unbound then Inl (AttributeError ''optic_type'')
          else if keep_largest_area mp \<and> ot \<noteq> Val ''multi'' then keep_largest_mask_area env raw
          else Inr raw)"
proof -
  have im: "mask_images m = map (map (\<lambda>p. [0, p])) (image_arr m)"
    unfolding mask_images_def image_times_def concatenate_axis2_def Let_def
    by (simp add: zip_map1 map_zip_map zip_same_conv_map comp_def)
  show ?thesis
    using assms
    by (simp add: calculate_mask_def returns_def lift_def andthen_def reads_def assign_def
        attr_obj_def get_attr_def mask_raw_of_def im split: sum.splits attr.splits)
qed

theorem calculate_mask_of_image_pair_witness:
  "fst (calculate_mask example_env (optic_world ''single'')) = Inr [[False, True]]"
proof -
  have "measurement (self (optic_world ''single'')) = Val example_measurement"
    "mask (params (self (optic_world ''single''))) = mask example_params"
    "optic_type (self (optic_world ''single'')) = Val ''single''"
    by (simp_all add: optic_world_def example_world_def init_def)
  from calculate_mask_of_image_pair [OF this, of example_env]
  show ?thesis
    by (simp add: example_env_def example_measurement_def example_params_def)
qed

subsection \<open>The input check of single-facet processing\<close>

text \<open>
  C7. With a \<open>pt_known\<close> that does not hold exactly one point,
  \<^verbatim>\<open>process_single_facet_optic\<close> raises the \<^verbatim>\<open>ValueError\<close> of its input check and
  leaves the world as it was. With exactly one point the check raises nothing: the
  call goes on to assign the optic type, the facet count, the copy of the facet
  definition and the surface, whatever happens in the steps after.
\<close>

theorem process_single_facet_optic_pt_known_check:
  "(length pt_known \<noteq> 1 \<longrightarrow>
      process_single_facet_optic env fd sf pt_known xy w =
        (Inl (ValueError ''Only 1 pt_known can be given for single facet processing''), w))
   \<and> (length pt_known = 1 \<longrightarrow>
      entry_attrs (snd (process_single_facet_optic env fd sf pt_known xy w)) =
        (Val ''single'', Val 1, Val [fd_next (heap w)], Val [sf]))"
proof (intro conjI impI)
  assume "length pt_known \<noteq> 1"
  then show "process_single_facet_optic env fd sf pt_known xy w =
        (Inl (ValueError ''Only 1 pt_known can be given for single facet processing''), w)"
    by (simp add: process_single_facet_optic_def andthen_def raises_def)
next
  assume len: "length pt_known = 1"
  let ?rest = "single_facet_pipeline env pt_known xy"
  have k: "keeps entry_attrs ?rest"
    by (rule single_rest_keeps_entry)
  show "entry_attrs (snd (process_single_facet_optic env fd sf pt_known xy w)) =
        (Val ''single'', Val 1, Val [fd_next (heap w)], Val [sf])"
    using len keepsD [OF k]
    by (simp add: process_single_facet_optic_def andthen_def returns_def assign_def copy_facet_def_def
        Let_def entry_attrs_def)
qed

theorem process_single_facet_optic_pt_known_check_witness:
  "process_single_facet_optic example_env 0 0 [(1, 1), (2, 2)] (0, 0) (example_world example_measurement) =
     (Inl (ValueError ''Only 1 pt_known can be given for single facet processing''),
      example_world example_measurement)
   \<and> entry_attrs (snd (process_single_facet_optic example_env 0 0 [(1, 1)] (0, 0) (example_world example_measurement))) =
     (Val ''single'', Val 1, Val [1], Val [0])"
  using process_single_facet_optic_pt_known_check
          [of "[(1, 1), (2, 2)]" example_env 0 0 "(0, 0)" "example_world example_measurement"]
        process_single_facet_optic_pt_known_check
          [of "[(1, 1)]" example_env 0 0 "(0, 0)" "example_world example_measurement"]
  by (simp add: example_world_def example_heap_def)

subsection \<open>The input check of ensemble processing\<close>

text \<open>
  C1. The claim is that \<^verbatim>\<open>process_multi_facet_optic\<close> raises a \<^verbatim>\<open>ValueError\<close> and
  assigns nothing whenever its four lists are not all of one length. The check in the
  code is the chained comparison \<^verbatim>\<open>len(a) != len(b) != len(c) != len(d)\<close>, which holds
  only when each list differs in length from the next. With three facet definitions,
  two surfaces, three known points and three index pairs the check does not raise:
  whatever the collaborators do, the call has assigned the optic type, the facet
  count, the copies of the three definitions and the list of two surfaces.
\<close>

theorem process_multi_facet_optic_mismatch_accepted:
  "entry_attrs (snd (process_multi_facet_optic env [f0, f1, f2] [s0, s1] ed [p0, p1, p2] [x0, x1, x2] w)) =
     (Val ''multi'', Val 3, Val [fd_next (heap w) ..< fd_next (heap w) + 3], Val [s0, s1])"
proof -
  have c: "\<not> (length [f0, f1, f2] \<noteq> length [s0, s1] \<and> length [s0, s1] \<noteq> length [p0, p1, p2]
            \<and> length [p0, p1, p2] \<noteq> length [x0, x1, x2])"
    by simp
  from multi_after_check [OF c, of env ed w] obtain F where
    run: "process_multi_facet_optic env [f0, f1, f2] [s0, s1] ed [p0, p1, p2] [x0, x1, x2] w =
     (multi_facet_pipeline env [p0, p1, p2] [x0, x1, x2])
     (w\<lparr>heap := (heap w)\<lparr>facet_defs := F, fd_next := fd_next (heap w) + length [f0, f1, f2],
                          ensemble_defs := (ensemble_defs (heap w))(ed_next (heap w) := ensemble_defs (heap w) ed),
                          ed_next := Suc (ed_next (heap w))\<rparr>,
        self := (self w)\<lparr>optic_type := Val ''multi'', num_facets := Val (length [f0, f1, f2]),
            data_facet_def := Val [fd_next (heap w) ..< fd_next (heap w) + length [f0, f1, f2]],
            data_ensemble_def := Val (ed_next (heap w)),
            data_surfaces := Val [s0, s1]\<rparr>\<rparr>)"
    by blast
  show ?thesis
    unfolding run
    using keepsD [OF multi_rest_keeps_entry, of env "[p0, p1, p2]" "[x0, x1, x2]"]
    by (simp add: entry_attrs_def numeral_3_eq_3)
qed

subsection \<open>What an aborted call leaves behind\<close>

lemma dark_run_outcome:
  "fst (process_single_facet_optic example_env 0 0 [(1, 1)] (0, 0) (example_world dark_measurement))
     = Inl (ValueError ''mask is empty'')"
  by (simp add: process_single_facet_optic_def single_facet_pipeline_def returns_def raises_def lift_def andthen_def reads_def
      assign_def find_blobs_def calculate_mask_def
      process_optic_singlefacet_geometry_def copy_facet_def_def example_env_def example_world_def
      init_def example_params_def example_heap_def dark_measurement_def attr_obj_def attr_val_def get_attr_def
      list_get_def mask_raw_of_def mask_images_def image_times_def concatenate_axis2_def example_geometry_def
      Let_def)

text \<open>
  C2, as the claim states it, fails: a single-facet call on a new instance whose
  measurement is dark passes the input check, assigns the entry attributes, and is
  then aborted by the geometry solver (the mask is empty). The instance is not the
  one from before the call.
\<close>

theorem aborted_call_keeps_state_counterexample:
  "fst (process_single_facet_optic example_env 0 0 [(1, 1)] (0, 0) (example_world dark_measurement))
     = Inl (ValueError ''mask is empty'')
   \<and> self (snd (process_single_facet_optic example_env 0 0 [(1, 1)] (0, 0) (example_world dark_measurement)))
     \<noteq> self (example_world dark_measurement)"
proof -
  have "length [(1::real, 1::real)] = 1" by simp
  from single_entry_attrs [OF this]
  have "entry_attrs (snd (process_single_facet_optic example_env 0 0 [(1, 1)] (0, 0) (example_world dark_measurement)))
      = (Val ''single'', Val 1, Val [fd_next (heap (example_world dark_measurement))], Val [0])" .
  then have "optic_type (self (snd (process_single_facet_optic example_env 0 0 [(1, 1)] (0, 0) (example_world dark_measurement))))
      \<noteq> optic_type (self (example_world dark_measurement))"
    by (simp add: entry_attrs_def example_world_def init_def)
  then show ?thesis
    using dark_run_outcome by auto
qed

text \<open>
  C2, amended. A call aborted by its input check leaves the world as it was. A call
  aborted after the check keeps what it assigned before the failing step: the optic
  type, the facet count, the copied facet definitions, the surfaces and (for an
  ensemble) the copied ensemble definition are those of the aborted call. In a
  single-facet call the slope solver and its data, which are assigned after the last
  step that can raise, are still those from before the call.
\<close>

theorem aborted_call_retained_state:
  "(length pt_known \<noteq> 1 \<longrightarrow> snd (process_single_facet_optic env fd sf pt_known xy w) = w)
   \<and> (length pt_known = 1 \<and> fst (process_single_facet_optic env fd sf pt_known xy w) = Inl e \<longrightarrow>
        entry_attrs (snd (process_single_facet_optic env fd sf pt_known xy w)) =
          (Val ''single'', Val 1, Val [fd_next (heap w)], Val [sf])
        \<and> slope_attrs (snd (process_single_facet_optic env fd sf pt_known xy w)) = slope_attrs w)
   \<and> (length fds \<noteq> length sfs \<and> length sfs \<noteq> length pts_known \<and> length pts_known \<noteq> length xys_known \<longrightarrow>
        snd (process_multi_facet_optic env fds sfs ed pts_known xys_known w) = w)
   \<and> (\<not> (length fds \<noteq> length sfs \<and> length sfs \<noteq> length pts_known \<and> length pts_known \<noteq> length xys_known) \<longrightarrow>
        entry_attrs (snd (process_multi_facet_optic env fds sfs ed pts_known xys_known w)) =
          (Val ''multi'', Val (length fds), Val [fd_next (heap w) ..< fd_next (heap w) + length fds], Val sfs)
        \<and> data_ensemble_def (self (snd (process_multi_facet_optic env fds sfs ed pts_known xys_known w))) =
          Val (ed_next (heap w)))"
proof (intro conjI impI)
  assume "length pt_known \<noteq> 1"
  then show "snd (process_single_facet_optic env fd sf pt_known xy w) = w"
    by (simp add: process_single_facet_optic_def andthen_def raises_def)
next
  assume a: "length pt_known = 1 \<and> fst (process_single_facet_optic env fd sf pt_known xy w) = Inl e"
  then have len: "length pt_known = 1" and err: "fst (process_single_facet_optic env fd sf pt_known xy w) = Inl e"
    by simp_all
  show "entry_attrs (snd (process_single_facet_optic env fd sf pt_known xy w)) =
          (Val ''single'', Val 1, Val [fd_next (heap w)], Val [sf])"
    unfolding single_after_check [OF len]
    using keepsD [OF single_rest_keeps_entry, of env pt_known xy]
    by (simp add: entry_attrs_def)
  show "slope_attrs (snd (process_single_facet_optic env fd sf pt_known xy w)) = slope_attrs w"
    using err unfolding single_after_check [OF len]
    by (drule_tac keeps_on_errorD [OF single_rest_keeps_slope_on_error]) (simp add: slope_attrs_def)
next
  assume "length fds \<noteq> length sfs \<and> length sfs \<noteq> length pts_known \<and> length pts_known \<noteq> length xys_known"
  then show "snd (process_multi_facet_optic env fds sfs ed pts_known xys_known w) = w"
    by (simp add: process_multi_facet_optic_def andthen_def raises_def)
next
  assume c: "\<not> (length fds \<noteq> length sfs \<and> length sfs \<noteq> length pts_known \<and> length pts_known \<noteq> length xys_known)"
  from multi_after_check [OF c, of env ed w] obtain F where
    run: "process_multi_facet_optic env fds sfs ed pts_known xys_known w =
     (multi_facet_pipeline env pts_known xys_known)
     (w\<lparr>heap := (heap w)\<lparr>facet_defs := F, fd_next := fd_next (heap w) + length fds,
                          ensemble_defs := (ensemble_defs (heap w))(ed_next (heap w) := ensemble_defs (heap w) ed),
                          ed_next := Suc (ed_next (heap w))\<rparr>,
        self := (self w)\<lparr>optic_type := Val ''multi'', num_facets := Val (length fds),
            data_facet_def := Val [fd_next (heap w) ..< fd_next (heap w) + length fds],
            data_ensemble_def := Val (ed_next (heap w)),
            data_surfaces := Val sfs\<rparr>\<rparr>)"
    by blast
  show "entry_attrs (snd (process_multi_facet_optic env fds sfs ed pts_known xys_known w)) =
          (Val ''multi'', Val (length fds), Val [fd_next (heap w) ..< fd_next (heap w) + length fds], Val sfs)"
    unfolding run
    using keepsD [OF multi_rest_keeps_entry, of env pts_known xys_known]
    by (simp add: entry_attrs_def)
  show "data_ensemble_def (self (snd (process_multi_facet_optic env fds sfs ed pts_known xys_known w))) =
          Val (ed_next (heap w))"
    unfolding run
    using keepsD [OF multi_rest_keeps_entry, of env pts_known xys_known]
    by (simp add: entry_attrs_def)
qed

theorem aborted_call_retained_state_witness:
  "entry_attrs (snd (process_single_facet_optic example_env 0 0 [(1, 1)] (0, 0) (example_world dark_measurement)))
     = (Val ''single'', Val 1, Val [1], Val [0])
   \<and> slope_attrs (snd (process_single_facet_optic example_env 0 0 [(1, 1)] (0, 0) (example_world dark_measurement)))
     = (Unbound, Unbound)
   \<and> snd (process_multi_facet_optic example_env [0] [0, 0] 0 [(1, 1), (1, 1), (1, 1)] [] (example_world dark_measurement))
     = example_world dark_measurement"
  using aborted_call_retained_state
          [of "[(1, 1)]" example_env 0 0 "(0, 0)" "example_world dark_measurement" "ValueError ''mask is empty''"
              "[0]" "[0, 0]" "[(1, 1), (1, 1), (1, 1)]" "[]" 0]
        dark_run_outcome
  by (simp add: slope_attrs_def example_world_def init_def example_heap_def)

subsection \<open>The caller's definitions\<close>

text \<open>
  C9. Neither processing method writes to a facet definition or an ensemble
  definition that existed before the call: the instance holds new objects with the
  contents of the caller's (the copies), and the steps after the entry read the
  definitions through these. The surfaces are not copied: the instance holds the
  addresses the caller passed.
\<close>

theorem caller_definitions_are_copied:
  assumes "a < fd_next (heap w)" and "b < ed_next (heap w)"
    and "\<forall>i < length fds. fds ! i < fd_next (heap w)"
  shows "facet_defs (heap (snd (process_single_facet_optic env fd sf pt_known xy w))) a = facet_defs (heap w) a
    \<and> (length pt_known = 1 \<longrightarrow>
         data_facet_def (self (snd (process_single_facet_optic env fd sf pt_known xy w))) = Val [fd_next (heap w)]
         \<and> facet_defs (heap (snd (process_single_facet_optic env fd sf pt_known xy w))) (fd_next (heap w))
             = facet_defs (heap w) fd
         \<and> data_surfaces (self (snd (process_single_facet_optic env fd sf pt_known xy w))) = Val [sf])
    \<and> facet_defs (heap (snd (process_multi_facet_optic env fds sfs ed pts_known xys_known w))) a = facet_defs (heap w) a
    \<and> ensemble_defs (heap (snd (process_multi_facet_optic env fds sfs ed pts_known xys_known w))) b = ensemble_defs (heap w) b
    \<and> (\<not> (length fds \<noteq> length sfs \<and> length sfs \<noteq> length pts_known \<and> length pts_known \<noteq> length xys_known) \<longrightarrow>
         data_facet_def (self (snd (process_multi_facet_optic env fds sfs ed pts_known xys_known w)))
           = Val [fd_next (heap w) ..< fd_next (heap w) + length fds]
         \<and> (\<forall>i < length fds.
               facet_defs (heap (snd (process_multi_facet_optic env fds sfs ed pts_known xys_known w))) (fd_next (heap w) + i)
                 = facet_defs (heap w) (fds ! i))
         \<and> data_ensemble_def (self (snd (process_multi_facet_optic env fds sfs ed pts_known xys_known w)))
           = Val (ed_next (heap w))
         \<and> ensemble_defs (heap (snd (process_multi_facet_optic env fds sfs ed pts_known xys_known w))) (ed_next (heap w))
           = ensemble_defs (heap w) ed
         \<and> data_surfaces (self (snd (process_multi_facet_optic env fds sfs ed pts_known xys_known w))) = Val sfs)"
proof -
  let ?s = "snd (process_single_facet_optic env fd sf pt_known xy w)"
  let ?m = "snd (process_multi_facet_optic env fds sfs ed pts_known xys_known w)"
  let ?c = "length fds \<noteq> length sfs \<and> length sfs \<noteq> length pts_known \<and> length pts_known \<noteq> length xys_known"
  have single_defs: "definitions_of ?s =
      ((facet_defs (heap w))(fd_next (heap w) := facet_defs (heap w) fd), Suc (fd_next (heap w)),
       ensemble_defs (heap w), ed_next (heap w))" if "length pt_known = 1"
    unfolding single_after_check [OF that]
    using keepsD [OF single_rest_keeps_definitions, of env pt_known xy]
    by (simp add: definitions_of_def)
  have single_entry: "entry_attrs ?s = (Val ''single'', Val 1, Val [fd_next (heap w)], Val [sf])"
    if "length pt_known = 1"
    unfolding single_after_check [OF that]
    using keepsD [OF single_rest_keeps_entry, of env pt_known xy]
    by (simp add: entry_attrs_def)
  have s1: "facet_defs (heap ?s) a = facet_defs (heap w) a"
  proof (cases "length pt_known = 1")
    case True
    then show ?thesis using single_defs assms(1) by (simp add: definitions_of_def)
  next
    case False
    then show ?thesis by (simp add: process_single_facet_optic_def andthen_def raises_def)
  qed
  have s2: "data_facet_def (self ?s) = Val [fd_next (heap w)]
         \<and> facet_defs (heap ?s) (fd_next (heap w)) = facet_defs (heap w) fd
         \<and> data_surfaces (self ?s) = Val [sf]" if "length pt_known = 1"
    using single_defs [OF that] single_entry [OF that] by (simp add: definitions_of_def entry_attrs_def)
  have m_unchanged: "?m = w" if ?c
    using that by (simp add: process_multi_facet_optic_def andthen_def raises_def)
  have m2: "facet_defs (heap ?m) a = facet_defs (heap w) a
      \<and> ensemble_defs (heap ?m) b = ensemble_defs (heap w) b
      \<and> data_facet_def (self ?m) = Val [fd_next (heap w) ..< fd_next (heap w) + length fds]
      \<and> (\<forall>i < length fds. facet_defs (heap ?m) (fd_next (heap w) + i) = facet_defs (heap w) (fds ! i))
      \<and> data_ensemble_def (self ?m) = Val (ed_next (heap w))
      \<and> ensemble_defs (heap ?m) (ed_next (heap w)) = ensemble_defs (heap w) ed
      \<and> data_surfaces (self ?m) = Val sfs" if nc: "\<not> ?c"
  proof -
    from multi_after_check [OF nc, of env ed w] obtain F where
      run: "process_multi_facet_optic env fds sfs ed pts_known xys_known w =
       (multi_facet_pipeline env pts_known xys_known)
       (w\<lparr>heap := (heap w)\<lparr>facet_defs := F, fd_next := fd_next (heap w) + length fds,
                            ensemble_defs := (ensemble_defs (heap w))(ed_next (heap w) := ensemble_defs (heap w) ed),
                            ed_next := Suc (ed_next (heap w))\<rparr>,
          self := (self w)\<lparr>optic_type := Val ''multi'', num_facets := Val (length fds),
              data_facet_def := Val [fd_next (heap w) ..< fd_next (heap w) + length fds],
              data_ensemble_def := Val (ed_next (heap w)),
              data_surfaces := Val sfs\<rparr>\<rparr>)"
      and old: "\<forall>a < fd_next (heap w). F a = facet_defs (heap w) a"
      and new: "\<forall>i < length fds. fds ! i < fd_next (heap w) \<longrightarrow> F (fd_next (heap w) + i) = facet_defs (heap w) (fds ! i)"
      by blast
    have defs: "definitions_of ?m =
        (F, fd_next (heap w) + length fds,
         (ensemble_defs (heap w))(ed_next (heap w) := ensemble_defs (heap w) ed), Suc (ed_next (heap w)))"
      unfolding run
      using keepsD [OF multi_rest_keeps_definitions, of env pts_known xys_known]
      by (simp add: definitions_of_def)
    have entry: "entry_attrs ?m =
          (Val ''multi'', Val (length fds), Val [fd_next (heap w) ..< fd_next (heap w) + length fds], Val sfs)
        \<and> data_ensemble_def (self ?m) = Val (ed_next (heap w))"
      unfolding run
      using keepsD [OF multi_rest_keeps_entry, of env pts_known xys_known]
      by (simp add: entry_attrs_def)
    show ?thesis
      using defs entry old new assms by (simp add: definitions_of_def entry_attrs_def)
  qed
  have m1: "facet_defs (heap ?m) a = facet_defs (heap w) a \<and> ensemble_defs (heap ?m) b = ensemble_defs (heap w) b"
    using m_unchanged m2 by (cases ?c) simp_all
  show ?thesis
    using s1 s2 m1 m2 by blast
qed

theorem caller_definitions_are_copied_witness:
  "(0::nat) < fd_next (heap (example_world example_measurement))
   \<and> facet_defs (heap (snd (process_single_facet_optic example_env 0 0 [(1, 1)] (0, 0) (example_world example_measurement)))) 0
       = facet_defs example_heap 0
   \<and> data_facet_def (self (snd (process_single_facet_optic example_env 0 0 [(1, 1)] (0, 0) (example_world example_measurement))))
       = Val [1]
   \<and> data_surfaces (self (snd (process_single_facet_optic example_env 0 0 [(1, 1)] (0, 0) (example_world example_measurement))))
       = Val [0]
   \<and> data_facet_def (self (snd (process_multi_facet_optic example_env [0, 0] [0, 0] 0 [(1, 1), (1, 1)] [(0, 0), (1, 0)]
         (example_world example_measurement))))
       = Val [1, 2]
   \<and> ensemble_defs (heap (snd (process_multi_facet_optic example_env [0, 0] [0, 0] 0 [(1, 1), (1, 1)] [(0, 0), (1, 0)]
         (example_world example_measurement)))) 0
       = ensemble_defs example_heap 0"
proof -
  let ?w = "example_world example_measurement"
  have h1: "(0::nat) < fd_next (heap ?w)" and h2: "(0::nat) < ed_next (heap ?w)"
    by (simp_all add: example_world_def example_heap_def)
  have h3: "\<forall>i < length [0::nat, 0]. [0::nat, 0] ! i < fd_next (heap ?w)"
    by (simp add: example_world_def example_heap_def nth_Cons')
  from caller_definitions_are_copied
          [OF h1 h2 h3, of example_env 0 0 "[(1, 1)]" "(0, 0)"
              "[0, 0]" 0 "[(1, 1), (1, 1)]" "[(0, 0), (1, 0)]"]
  show ?thesis
    by (simp add: example_world_def example_heap_def upt_rec)
qed

subsection \<open>A second run and the results of the first\<close>

lemma ignores_returns: "ignores P (returns x)"
  by (simp add: ignores_def returns_def)

lemma ignores_raises: "ignores P (raises e)"
  by (simp add: ignores_def raises_def)

lemma ignores_lift: "ignores P (lift r)"
  by (simp add: ignores_def lift_def)

lemma ignores_reads: "(\<And>w. g (P w) = g w) \<Longrightarrow> ignores P (reads g)"
  by (simp add: ignores_def reads_def)

lemma ignores_assign: "(\<And>w. g (P w) = P (g w)) \<Longrightarrow> ignores P (assign g)"
  by (simp add: ignores_def assign_def)

lemma ignores_andthen:
  assumes "ignores P m" and "\<And>x. ignores P (k x)"
  shows "ignores P (andthen m k)"
  unfolding ignores_def
proof
  fix w
  obtain r w' where mw: "m w = (r, w')" by (cases "m w")
  have mp: "m (P w) = (r, P w')" using assms(1) mw by (simp add: ignores_def)
  show "andthen m k (P w) = (fst (andthen m k w), P (snd (andthen m k w)))"
  proof (cases r)
    case (Inl e)
    then show ?thesis using mw mp by (simp add: andthen_def)
  next
    case (Inr x)
    have "k x (P w') = (fst (k x w'), P (snd (k x w')))"
      using assms(2) [of x] by (simp add: ignores_def)
    then show ?thesis using mw mp Inr by (simp add: andthen_def)
  qed
qed

lemma ignores_if: "ignores P a \<Longrightarrow> ignores P b \<Longrightarrow> ignores P (if c then a else b)"
  by simp

lemma ignores_for_each: "(\<And>x a. ignores P (body x a)) \<Longrightarrow> ignores P (for_each xs body acc)"
  by (induction xs arbitrary: acc) (auto intro: ignores_returns ignores_andthen)

lemma replaces_andthen:
  assumes "ignores P m" and "\<And>x. replaces P (k x)"
  shows "replaces P (andthen m k)"
  unfolding replaces_def
proof
  fix w
  obtain r w' where mw: "m w = (r, w')" by (cases "m w")
  have mp: "m (P w) = (r, P w')" using assms(1) mw by (simp add: ignores_def)
  show "fst (andthen m k (P w)) = fst (andthen m k w) \<and>
        (\<forall>x. fst (andthen m k w) = Inr x \<longrightarrow> snd (andthen m k (P w)) = snd (andthen m k w))"
  proof (cases r)
    case (Inl e)
    then show ?thesis using mw mp by (simp add: andthen_def)
  next
    case (Inr x)
    have "fst (k x (P w')) = fst (k x w') \<and>
        (\<forall>y. fst (k x w') = Inr y \<longrightarrow> snd (k x (P w')) = snd (k x w'))"
      using assms(2) [of x] by (simp add: replaces_def)
    then show ?thesis using mw mp Inr by (simp add: andthen_def)
  qed
qed

lemma replaces_then:
  assumes "replaces P m"
  shows "replaces P (andthen m k)"
  unfolding replaces_def
proof
  fix w
  obtain r w' where mw: "m w = (r, w')" by (cases "m w")
  obtain r2 w2 where mp: "m (P w) = (r2, w2)" by (cases "m (P w)")
  have 1: "r2 = r" and 2: "\<forall>x. r = Inr x \<longrightarrow> w2 = w'"
    using assms mw mp by (auto simp: replaces_def dest: spec [of _ w])
  show "fst (andthen m k (P w)) = fst (andthen m k w) \<and>
        (\<forall>x. fst (andthen m k w) = Inr x \<longrightarrow> snd (andthen m k (P w)) = snd (andthen m k w))"
    using mw mp 1 2 by (cases r) (simp_all add: andthen_def)
qed

lemma replaces_assign: "(\<And>w. g (P w) = g w) \<Longrightarrow> replaces P (assign g)"
  by (simp add: replaces_def assign_def)

lemma replacesD:
  "replaces P m \<Longrightarrow> fst (m w) = Inr x \<Longrightarrow> m (P w) = m w"
  unfolding replaces_def by (drule spec [of _ w]) (simp add: prod_eq_iff)


lemmas ignores_intros = ignores_returns ignores_raises ignores_lift ignores_reads ignores_assign
  ignores_andthen ignores_if ignores_for_each

lemma ignores_copy_facet_def:
  assumes "\<And>w. heap (P w) = heap w" and "\<And>w h. P (w\<lparr>heap := h\<rparr>) = (P w)\<lparr>heap := h\<rparr>"
  shows "ignores P (copy_facet_def a)"
  by (simp add: ignores_def copy_facet_def_def Let_def assms)

lemma single_replaces_optic_type:
  "replaces (\<lambda>w. w\<lparr>self := (self w)\<lparr>optic_type := v\<rparr>\<rparr>)
     (process_single_facet_optic env fd sf pt_known xy)"
  unfolding process_single_facet_optic_def single_facet_pipeline_def find_blobs_def calculate_mask_def solve_facet_def
    process_optic_singlefacet_geometry_def Let_def case_prod_beta
  apply ((rule replaces_andthen,
          (intro ignores_intros ignores_copy_facet_def; (simp add: set_surface_def slope_kwargs_view_def; fail)))
        | (rule replaces_then)
        | (rule replaces_assign, (simp; fail)))+
  done

lemma single_replaces_num_facets:
  "replaces (\<lambda>w. w\<lparr>self := (self w)\<lparr>num_facets := v\<rparr>\<rparr>)
     (process_single_facet_optic env fd sf pt_known xy)"
  unfolding process_single_facet_optic_def single_facet_pipeline_def find_blobs_def calculate_mask_def solve_facet_def
    process_optic_singlefacet_geometry_def Let_def case_prod_beta
  apply ((rule replaces_andthen,
          (intro ignores_intros ignores_copy_facet_def; (simp add: set_surface_def slope_kwargs_view_def; fail)))
        | (rule replaces_then)
        | (rule replaces_assign, (simp; fail)))+
  done

lemma single_replaces_data_facet_def:
  "replaces (\<lambda>w. w\<lparr>self := (self w)\<lparr>data_facet_def := v\<rparr>\<rparr>)
     (process_single_facet_optic env fd sf pt_known xy)"
  unfolding process_single_facet_optic_def single_facet_pipeline_def find_blobs_def calculate_mask_def solve_facet_def
    process_optic_singlefacet_geometry_def Let_def case_prod_beta
  apply ((rule replaces_andthen,
          (intro ignores_intros ignores_copy_facet_def; (simp add: set_surface_def slope_kwargs_view_def; fail)))
        | (rule replaces_then)
        | (rule replaces_assign, (simp; fail)))+
  done

lemma single_replaces_data_surfaces:
  "replaces (\<lambda>w. w\<lparr>self := (self w)\<lparr>data_surfaces := v\<rparr>\<rparr>)
     (process_single_facet_optic env fd sf pt_known xy)"
  unfolding process_single_facet_optic_def single_facet_pipeline_def find_blobs_def calculate_mask_def solve_facet_def
    process_optic_singlefacet_geometry_def Let_def case_prod_beta
  apply ((rule replaces_andthen,
          (intro ignores_intros ignores_copy_facet_def; (simp add: set_surface_def slope_kwargs_view_def; fail)))
        | (rule replaces_then)
        | (rule replaces_assign, (simp; fail)))+
  done

lemma single_replaces_blob_index:
  "replaces (\<lambda>w. w\<lparr>self := (self w)\<lparr>blob_index := v\<rparr>\<rparr>)
     (process_single_facet_optic env fd sf pt_known xy)"
  unfolding process_single_facet_optic_def single_facet_pipeline_def find_blobs_def calculate_mask_def solve_facet_def
    process_optic_singlefacet_geometry_def Let_def case_prod_beta
  apply ((rule replaces_andthen,
          (intro ignores_intros ignores_copy_facet_def; (simp add: set_surface_def slope_kwargs_view_def; fail)))
        | (rule replaces_then)
        | (rule replaces_assign, (simp; fail)))+
  done

lemma single_replaces_geometry:
  "replaces (\<lambda>w. w\<lparr>self := (self w)\<lparr>data_geometry_general := a, data_image_proccessing_general := b,
        data_geometry_facet := c, data_image_processing_facet := d, data_error := e\<rparr>\<rparr>)
     (process_single_facet_optic env fd sf pt_known xy)"
  unfolding process_single_facet_optic_def single_facet_pipeline_def find_blobs_def calculate_mask_def solve_facet_def
    process_optic_singlefacet_geometry_def Let_def case_prod_beta
  apply ((rule replaces_andthen,
          (intro ignores_intros ignores_copy_facet_def; (simp add: set_surface_def slope_kwargs_view_def; fail)))
        | (rule replaces_then)
        | (rule replaces_assign, (simp; fail)))+
  done

lemma single_replaces_optic_data:
  "replaces (\<lambda>w. w\<lparr>self := (self w)\<lparr>params := (params (self w))
        \<lparr>debug_slope_solver := (debug_slope_solver (params (self w)))\<lparr>optic_data := v\<rparr>\<rparr>\<rparr>\<rparr>)
     (process_single_facet_optic env fd sf pt_known xy)"
  unfolding process_single_facet_optic_def single_facet_pipeline_def find_blobs_def calculate_mask_def solve_facet_def
    process_optic_singlefacet_geometry_def Let_def case_prod_beta
  apply ((rule replaces_andthen,
          (intro ignores_intros ignores_copy_facet_def; (simp add: set_surface_def slope_kwargs_view_def; fail)))
        | (rule replaces_then)
        | (rule replaces_assign, (simp; fail)))+
  done

lemma single_replaces_slope_solver:
  "replaces (\<lambda>w. w\<lparr>self := (self w)\<lparr>slope_solver := v\<rparr>\<rparr>)
     (process_single_facet_optic env fd sf pt_known xy)"
  unfolding process_single_facet_optic_def single_facet_pipeline_def find_blobs_def calculate_mask_def solve_facet_def
    process_optic_singlefacet_geometry_def Let_def case_prod_beta
  apply ((rule replaces_andthen,
          (intro ignores_intros ignores_copy_facet_def; (simp add: set_surface_def slope_kwargs_view_def; fail)))
        | (rule replaces_then)
        | (rule replaces_assign, (simp; fail)))+
  done

lemma single_replaces_data_calculation_facet:
  "replaces (\<lambda>w. w\<lparr>self := (self w)\<lparr>data_calculation_facet := v\<rparr>\<rparr>)
     (process_single_facet_optic env fd sf pt_known xy)"
  unfolding process_single_facet_optic_def single_facet_pipeline_def find_blobs_def calculate_mask_def solve_facet_def
    process_optic_singlefacet_geometry_def Let_def case_prod_beta
  apply ((rule replaces_andthen,
          (intro ignores_intros ignores_copy_facet_def; (simp add: set_surface_def slope_kwargs_view_def; fail)))
        | (rule replaces_then)
        | (rule replaces_assign, (simp; fail)))+
  done


lemma single_run_forgets_earlier_results:
  assumes "fst (process_single_facet_optic env fd sf pt_known xy w) = Inr ()"
  shows "process_single_facet_optic env fd sf pt_known xy (with_earlier_results old w) =
         process_single_facet_optic env fd sf pt_known xy w"
proof -
  let ?run = "process_single_facet_optic env fd sf pt_known xy"
  have step: "?run (P w') = ?run w" if "replaces P ?run" and "?run w' = ?run w" for P w'
    using replacesD [OF that(1), of w' "()"] that(2) assms by simp
  define w1 where "w1 = w\<lparr>self := (self w)\<lparr>params := (params (self w))
        \<lparr>debug_slope_solver := (debug_slope_solver (params (self w)))
           \<lparr>optic_data := optic_data (debug_slope_solver (params old))\<rparr>\<rparr>\<rparr>\<rparr>"
  have r1: "?run w1 = ?run w"
    unfolding w1_def by (rule step [OF single_replaces_optic_data refl])
  define w2 where "w2 = w1\<lparr>self := (self w1)\<lparr>data_calculation_facet := data_calculation_facet old\<rparr>\<rparr>"
  have r2: "?run w2 = ?run w"
    unfolding w2_def by (rule step [OF single_replaces_data_calculation_facet r1])
  define w3 where "w3 = w2\<lparr>self := (self w2)\<lparr>slope_solver := slope_solver old\<rparr>\<rparr>"
  have r3: "?run w3 = ?run w"
    unfolding w3_def by (rule step [OF single_replaces_slope_solver r2])
  define w4 where "w4 = w3\<lparr>self := (self w3)\<lparr>data_geometry_general := data_geometry_general old,
        data_image_proccessing_general := data_image_proccessing_general old,
        data_geometry_facet := data_geometry_facet old,
        data_image_processing_facet := data_image_processing_facet old,
        data_error := data_error old\<rparr>\<rparr>"
  have r4: "?run w4 = ?run w"
    unfolding w4_def by (rule step [OF single_replaces_geometry r3])
  define w5 where "w5 = w4\<lparr>self := (self w4)\<lparr>blob_index := blob_index old\<rparr>\<rparr>"
  have r5: "?run w5 = ?run w"
    unfolding w5_def by (rule step [OF single_replaces_blob_index r4])
  define w6 where "w6 = w5\<lparr>self := (self w5)\<lparr>data_surfaces := data_surfaces old\<rparr>\<rparr>"
  have r6: "?run w6 = ?run w"
    unfolding w6_def by (rule step [OF single_replaces_data_surfaces r5])
  define w7 where "w7 = w6\<lparr>self := (self w6)\<lparr>data_facet_def := data_facet_def old\<rparr>\<rparr>"
  have r7: "?run w7 = ?run w"
    unfolding w7_def by (rule step [OF single_replaces_data_facet_def r6])
  define w8 where "w8 = w7\<lparr>self := (self w7)\<lparr>num_facets := num_facets old\<rparr>\<rparr>"
  have r8: "?run w8 = ?run w"
    unfolding w8_def by (rule step [OF single_replaces_num_facets r7])
  define w9 where "w9 = w8\<lparr>self := (self w8)\<lparr>optic_type := optic_type old\<rparr>\<rparr>"
  have r9: "?run w9 = ?run w"
    unfolding w9_def by (rule step [OF single_replaces_optic_type r8])
  have "with_earlier_results old w = w9"
    by (simp add: with_earlier_results_def w9_def w8_def w7_def w6_def w5_def w4_def w3_def w2_def w1_def)
  then show ?thesis using r9 by simp
qed

lemma example_single_run:
  "fst (process_single_facet_optic example_env 0 0 [(1, 1)] (0, 0) (example_world example_measurement)) = Inr ()"
  by (simp add: process_single_facet_optic_def single_facet_pipeline_def returns_def raises_def lift_def andthen_def reads_def
      assign_def find_blobs_def calculate_mask_def solve_facet_def set_surface_def slope_kwargs_view_def
      process_optic_singlefacet_geometry_def copy_facet_def_def example_env_def example_world_def
      init_def example_params_def example_heap_def example_measurement_def attr_obj_def attr_val_def get_attr_def
      list_get_def mask_raw_of_def mask_images_def image_times_def concatenate_axis2_def example_geometry_def
      Let_def)

text \<open>
  C8. A run of \<^verbatim>\<open>process_single_facet_optic\<close> that returns leaves the same world,
  whatever results of an earlier run the instance held when the run started: the
  optic type, the facet count, the facet definition, the surface, the blob index, the
  geometry records, the slope solver, its data and the facet definition of the
  debugging parameters are all assigned anew before they are read. So every
  attribute after the second run, and the optic \<^verbatim>\<open>get_optic\<close> builds from them, is
  the one a run on an instance without earlier results gives.
\<close>

theorem second_run_replaces_earlier_results:
  assumes "fst (process_single_facet_optic env fd sf pt_known xy w) = Inr ()"
  shows "process_single_facet_optic env fd sf pt_known xy (with_earlier_results old w) =
           process_single_facet_optic env fd sf pt_known xy w
       \<and> get_optic interpolation_type (snd (process_single_facet_optic env fd sf pt_known xy (with_earlier_results old w))) =
           get_optic interpolation_type (snd (process_single_facet_optic env fd sf pt_known xy w))"
  using single_run_forgets_earlier_results [OF assms, of old] by simp

theorem second_run_replaces_earlier_results_witness:
  "fst (process_single_facet_optic example_env 0 0 [(1, 1)] (0, 0) (example_world example_measurement)) = Inr ()
   \<and> process_single_facet_optic example_env 0 0 [(1, 1)] (0, 0)
        (with_earlier_results
           ((self (example_world dark_measurement))
              \<lparr>optic_type := Val ''multi'', num_facets := Val 7, data_facet_def := Val [0],
               data_calculation_facet := Val []\<rparr>)
           (example_world example_measurement)) =
       process_single_facet_optic example_env 0 0 [(1, 1)] (0, 0) (example_world example_measurement)"
  using example_single_run
    second_run_replaces_earlier_results [OF example_single_run,
      of "(self (example_world dark_measurement))
              \<lparr>optic_type := Val ''multi'', num_facets := Val 7, data_facet_def := Val [0],
               data_calculation_facet := Val []\<rparr>" "''nearest''"]
  by simp

subsection \<open>Rotations and the aligning rotation\<close>

lemma rot_apply_mul: "rot_apply (rot_mul p q) v = rot_apply p (rot_apply q v)"
proof -
  obtain p1 p2 p3 p4 p5 p6 p7 p8 p9 where p: "p = ((p1, p2, p3), (p4, p5, p6), (p7, p8, p9))"
    by (metis prod_cases3)
  obtain q1 q2 q3 q4 q5 q6 q7 q8 q9 where q: "q = ((q1, q2, q3), (q4, q5, q6), (q7, q8, q9))"
    by (metis prod_cases3)
  obtain x y z where v: "v = (x, y, z)" by (metis prod_cases3)
  show ?thesis
    unfolding p q v by (simp add: rot_mul_def algebra_simps)
qed

lemma rot_apply_id: "rot_apply rot_id v = v"
  by (cases v) (simp add: rot_id_def)

lemma rot_apply_vscale: "rot_apply r (vscale k v) = vscale k (rot_apply r v)"
proof -
  obtain r1 r2 r3 r4 r5 r6 r7 r8 r9 where r: "r = ((r1, r2, r3), (r4, r5, r6), (r7, r8, r9))"
    by (metis prod_cases3)
  obtain x y z where v: "v = (x, y, z)" by (metis prod_cases3)
  show ?thesis unfolding r v by (simp add: algebra_simps)
qed

lemma trans_R_mul: "trans_R (transform_mul s t) = rot_mul (trans_R s) (trans_R t)"
  by (simp add: transform_mul_def)

lemma trans_R_from_R: "trans_R (from_R r) = r"
  by (simp add: from_R_def from_R_V_def)

lemma dot_rot_apply:
  "dot (rot_apply p u) (rot_apply p v) = dot u (rot_apply (rot_mul (transpose3 p) p) v)"
proof -
  obtain p1 p2 p3 p4 p5 p6 p7 p8 p9 where p: "p = ((p1, p2, p3), (p4, p5, p6), (p7, p8, p9))"
    by (metis prod_cases3)
  obtain a b c where u: "u = (a, b, c)" by (metis prod_cases3)
  obtain x y z where v: "v = (x, y, z)" by (metis prod_cases3)
  show ?thesis
    unfolding p u v by (simp add: rot_mul_def algebra_simps)
qed

lemma transpose3_twice: "transpose3 (transpose3 p) = p"
proof -
  obtain p1 p2 p3 p4 p5 p6 p7 p8 p9 where p: "p = ((p1, p2, p3), (p4, p5, p6), (p7, p8, p9))"
    by (metis prod_cases3)
  show ?thesis unfolding p by simp
qed

lemma is_rotation_inv: "is_rotation p \<Longrightarrow> is_rotation (rot_inv p)"
  by (simp add: is_rotation_def rot_inv_def transpose3_twice)

lemma magnitude_rot_apply: "is_rotation p \<Longrightarrow> magnitude (rot_apply p v) = magnitude v"
  by (simp add: magnitude_def dot_rot_apply is_rotation_def rot_apply_id)

lemma magnitude_boresight: "magnitude boresight = 1"
  by (simp add: magnitude_def boresight_def)

lemma normalize_boresight: "normalize boresight = boresight"
  by (simp add: normalize_def magnitude_boresight) (simp add: boresight_def)

lemma dot_normalize:
  assumes "magnitude v \<noteq> 0"
  shows "dot (normalize v) (normalize v) = 1"
proof -
  obtain x y z where v: "v = (x, y, z)" by (metis prod_cases3)
  define m where "m = sqrt (x * x + y * y + z * z)"
  have pos: "0 \<le> x * x + y * y + z * z" by (simp add: sum_nonneg)
  have sq: "m * m = x * x + y * y + z * z"
    unfolding m_def using pos by simp
  have nz: "m \<noteq> 0" using assms by (simp add: magnitude_def v m_def)
  have "dot (normalize v) (normalize v) = (1 / m * x) * (1 / m * x) + (1 / m * y) * (1 / m * y) + (1 / m * z) * (1 / m * z)"
    by (simp add: v normalize_def magnitude_def m_def)
  also have "\<dots> = (x * x + y * y + z * z) / (m * m)"
    using nz by (simp add: field_simps)
  also have "\<dots> = (m * m) / (m * m)" by (simp only: sq)
  also have "\<dots> = 1" using nz by simp
  finally show ?thesis .
qed

lemma vscale_normalize:
  assumes "magnitude v \<noteq> 0"
  shows "vscale (magnitude v) (normalize v) = v"
proof -
  obtain x y z where v: "v = (x, y, z)" by (metis prod_cases3)
  show ?thesis using assms unfolding v normalize_def by simp
qed

lemma align_unit_to_boresight:
  assumes unit: "a1 * a1 + a2 * a2 + a3 * a3 = (1::real)" and d: "d * (1 + a3) = 1"
  shows "rot_apply
           (rot_add (rot_add rot_id (skew (cross (a1, a2, a3) (0, 0, 1))))
              (rot_scale d
                 (rot_mul (skew (cross (a1, a2, a3) (0, 0, 1))) (skew (cross (a1, a2, a3) (0, 0, 1))))))
           (a1, a2, a3) = (0, 0, 1)"
proof -
  have s: "d * (a1 * a1 + a2 * a2) = 1 - a3"
  proof -
    have f: "a1 * a1 + a2 * a2 = (1 - a3) * (1 + a3)"
      using unit by (simp add: algebra_simps)
    have "d * ((1 - a3) * (1 + a3)) = (1 - a3) * (d * (1 + a3))"
      by (simp only: mult.left_commute)
    then show ?thesis unfolding f d by simp
  qed
  have e: "rot_apply
           (rot_add (rot_add rot_id (skew (cross (a1, a2, a3) (0, 0, 1))))
              (rot_scale d
                 (rot_mul (skew (cross (a1, a2, a3) (0, 0, 1))) (skew (cross (a1, a2, a3) (0, 0, 1))))))
           (a1, a2, a3)
       = (a1 - a1 * a3 - a1 * (d * (a1 * a1 + a2 * a2)),
          a2 - a2 * a3 - a2 * (d * (a1 * a1 + a2 * a2)),
          a3 + (a1 * a1 + a2 * a2) - a3 * (d * (a1 * a1 + a2 * a2)))"
    by (simp add: rot_add_def rot_scale_def rot_mul_def rot_id_def algebra_simps)
  have z: "a3 + (a1 * a1 + a2 * a2) - a3 * (1 - a3) = 1"
    using unit by (simp add: algebra_simps)
  show ?thesis
    unfolding e s using z by (simp add: algebra_simps)
qed


lemma align_to_normalized:
  assumes "align_to v boresight = Inr r"
  shows "rot_apply r (normalize v) = boresight"
proof -
  obtain a1 a2 a3 where a: "normalize v = (a1, a2, a3)" by (metis prod_cases3)
  have mag: "magnitude v \<noteq> 0"
    using assms by (auto simp: align_to_def split: if_splits)
  have unit: "a1 * a1 + a2 * a2 + a3 * a3 = 1"
    using dot_normalize [OF mag] by (simp add: a)
  have c: "dot (normalize v) (normalize boresight) = a3"
    by (simp add: a normalize_boresight) (simp add: boresight_def)
  have nz: "1 + a3 \<noteq> 0"
    using assms mag by (auto simp: align_to_def Let_def c magnitude_boresight split: if_splits)
  have r: "r = rot_add (rot_add rot_id (skew (cross (a1, a2, a3) (0, 0, 1))))
              (rot_scale (1 / (1 + a3))
                 (rot_mul (skew (cross (a1, a2, a3) (0, 0, 1))) (skew (cross (a1, a2, a3) (0, 0, 1)))))"
    using assms mag nz c
    by (simp add: align_to_def Let_def magnitude_boresight normalize_boresight a) (simp add: boresight_def)
  have d: "1 / (1 + a3) * (1 + a3) = 1" using nz by simp
  show ?thesis
    unfolding a r using align_unit_to_boresight [OF unit d] by (simp add: boresight_def)
qed

lemma align_to_maps:
  assumes "align_to v boresight = Inr r"
  shows "rot_apply r v = vscale (magnitude v) boresight"
proof -
  have mag: "magnitude v \<noteq> 0"
    using assms by (auto simp: align_to_def split: if_splits)
  have "rot_apply r v = rot_apply r (vscale (magnitude v) (normalize v))"
    by (simp only: vscale_normalize [OF mag])
  also have "\<dots> = vscale (magnitude v) (rot_apply r (normalize v))"
    by (rule rot_apply_vscale)
  finally show ?thesis by (simp only: align_to_normalized [OF assms])
qed

lemma align_to_unit:
  assumes "align_to v boresight = Inr r" and "magnitude v = 1"
  shows "rot_apply r v = boresight"
  using align_to_maps [OF assms(1)] assms(2) by (simp add: boresight_def)

subsection \<open>The facet pointing calculation, step by step\<close>

lemma facet_transform_result:
  assumes "facet_transform idx w = (Inr t, w')"
    and "data_ensemble_def (self w) = Val ed" and "data_calculation_facet (self w) = Val dcf"
  shows "w' = w \<and> idx < length dcf \<and> t = facet_pre_transform (ensemble_defs (heap w) ed) dcf idx"
  using assms
  by (auto simp: facet_transform_def facet_pre_transform_def returns_def lift_def andthen_def reads_def
      attr_obj_def attr_val_def list_get_def split: if_splits)

lemma for_each_collect:
  assumes "\<And>x u t u'. f x u = (Inr t, u') \<Longrightarrow> u' = u"
    and "for_each xs (\<lambda>x acc. andthen (f x) (\<lambda>t. returns (acc @ [t]))) acc w = (Inr r, w')"
  shows "w' = w \<and> length r = length acc + length xs \<and> take (length acc) r = acc
       \<and> (\<forall>j < length xs. f (xs ! j) w = (Inr (r ! (length acc + j)), w))"
  using assms(2)
proof (induction xs arbitrary: acc)
  case Nil
  then show ?case by (simp add: returns_def)
next
  case (Cons x xs)
  obtain o1 w1 where fx: "f x w = (o1, w1)" by (cases "f x w")
  show ?case
  proof (cases o1)
    case (Inl e)
    then show ?thesis using Cons.prems fx by (simp add: andthen_def)
  next
    case (Inr t)
    have w1: "w1 = w" using assms(1) fx Inr by blast
    have rest: "for_each xs (\<lambda>x acc. andthen (f x) (\<lambda>t. returns (acc @ [t]))) (acc @ [t]) w = (Inr r, w')"
      using Cons.prems fx Inr w1 by (simp add: andthen_def returns_def)
    from Cons.IH [OF rest] have
      a: "w' = w" and b: "length r = length (acc @ [t]) + length xs"
      and c: "take (length (acc @ [t])) r = acc @ [t]"
      and d: "\<forall>j < length xs. f (xs ! j) w = (Inr (r ! (length (acc @ [t]) + j)), w)"
      by simp_all
    have t: "r ! length acc = t"
      using c b by (metis length_append_singleton lessI nth_append_length nth_take)
    have pre: "take (length acc) r = acc"
      using c by (metis append_eq_conv_conj length_append_singleton take_Suc_conv_app_nth
          butlast_snoc butlast_take diff_Suc_1 le_add1 b length_append)
    show ?thesis
    proof (intro conjI allI impI)
      show "w' = w" by (rule a)
      show "length r = length acc + length (x # xs)" using b by simp
      show "take (length acc) r = acc" by (rule pre)
    next
      fix j assume "j < length (x # xs)"
      then show "f ((x # xs) ! j) w = (Inr (r ! (length acc + j)), w)"
        using d fx Inr w1 t by (cases j) simp_all
    qed
  qed
qed


lemma facet_transforms_result:
  assumes "facet_transforms n w = (Inr ts, w')"
    and ed: "data_ensemble_def (self w) = Val ed" and dcf: "data_calculation_facet (self w) = Val dcf"
  shows "w' = w \<and> length ts = n
       \<and> (\<forall>i < n. i < length dcf \<and> ts ! i = facet_pre_transform (ensemble_defs (heap w) ed) dcf i)"
proof -
  have pure: "u' = u" if "facet_transform x u = (Inr t, u')" for x u t u'
    using keepsD [OF keeps_facet_transform, of "\<lambda>w. w" x u] that by simp
  from for_each_collect [of facet_transform "[0 ..< n]" "[]" w ts w', OF pure]
  have a: "w' = w" and b: "length ts = n"
    and c: "\<forall>j < n. facet_transform j w = (Inr (ts ! j), w)"
    using assms(1) by (simp_all add: facet_transforms_def)
  show ?thesis
  proof (intro conjI allI impI)
    show "w' = w" by (rule a)
    show "length ts = n" by (rule b)
  next
    fix i assume "i < n"
    then have "facet_transform i w = (Inr (ts ! i), w)" using c by simp
    from facet_transform_result [OF this ed dcf]
    show "i < length dcf" and "ts ! i = facet_pre_transform (ensemble_defs (heap w) ed) dcf i"
      by simp_all
  qed
qed

lemma ensemble_facet_result:
  assumes "ensemble_facet ts idx w = (Inr (), w')"
    and "data_calculation_facet (self w) = Val dcf"
    and "data_calculation_ensemble (self w) = Val acc"
  shows "idx < length dcf \<and> idx < length ts
       \<and> w' = w\<lparr>self := (self w)\<lparr>data_calculation_ensemble := Val (acc @ [ensemble_record (ts ! idx) (dcf ! idx)])\<rparr>\<rparr>"
  using assms
  by (auto simp: ensemble_facet_def returns_def lift_def andthen_def reads_def assign_def
      attr_val_def list_get_def split: if_splits)

lemma ensemble_loop:
  assumes "for_each xs (\<lambda>idx _. ensemble_facet ts idx) () w = (Inr (), w')"
    and "data_calculation_facet (self w) = Val dcf"
    and "data_calculation_ensemble (self w) = Val acc"
  shows "data_calculation_ensemble (self w') = Val (acc @ map (\<lambda>i. ensemble_record (ts ! i) (dcf ! i)) xs)"
  using assms
proof (induction xs arbitrary: acc w)
  case Nil
  then show ?case by (simp add: returns_def)
next
  case (Cons x xs)
  obtain o1 w1 where fx: "ensemble_facet ts x w = (o1, w1)" by (cases "ensemble_facet ts x w")
  show ?case
  proof (cases o1)
    case (Inl e)
    then show ?thesis using Cons.prems(1) fx by (simp add: andthen_def)
  next
    case (Inr u)
    then have fx': "ensemble_facet ts x w = (Inr (), w1)" using fx by simp
    from ensemble_facet_result [OF fx' Cons.prems(2) Cons.prems(3)]
    have w1: "w1 = w\<lparr>self := (self w)\<lparr>data_calculation_ensemble := Val (acc @ [ensemble_record (ts ! x) (dcf ! x)])\<rparr>\<rparr>"
      by simp
    have rest: "for_each xs (\<lambda>idx _. ensemble_facet ts idx) () w1 = (Inr (), w')"
      using Cons.prems(1) fx' by (simp add: andthen_def)
    have d1: "data_calculation_facet (self w1) = Val dcf" using Cons.prems(2) w1 by simp
    have e1: "data_calculation_ensemble (self w1) = Val (acc @ [ensemble_record (ts ! x) (dcf ! x)])"
      using w1 by simp
    from Cons.IH [OF rest d1 e1] show ?thesis by simp
  qed
qed

lemma calculate_facet_pointing_result:
  assumes run: "calculate_facet_pointing reference w = (Inr (), w')"
    and dcf: "data_calculation_facet (self w) = Val dcf"
    and n: "num_facets (self w) = Val n"
    and ed: "data_ensemble_def (self w) = Val ed"
  shows "\<exists>v r. reference_pointing reference (map (facet_pointing (ensemble_defs (heap w) ed) dcf) [0 ..< n]) = Inr v
          \<and> align_to v boresight = Inr r
          \<and> data_calculation_ensemble (self w') =
              Val (map (\<lambda>i. ensemble_record
                            (transform_mul (from_R r) (facet_pre_transform (ensemble_defs (heap w) ed) dcf i))
                            (dcf ! i)) [0 ..< n])
          \<and> (\<forall>i < n. i < length dcf)"
proof -
  let ?E = "ensemble_defs (heap w) ed"
  let ?w1 = "w\<lparr>self := (self w)\<lparr>data_calculation_ensemble := Val []\<rparr>\<rparr>"
  have dcf1: "data_calculation_facet (self ?w1) = Val dcf" and ed1: "data_ensemble_def (self ?w1) = Val ed"
    and E1: "ensemble_defs (heap ?w1) ed = ?E"
    using dcf ed by simp_all
  obtain o2 w2 where ft: "facet_transforms n ?w1 = (o2, w2)" by (cases "facet_transforms n ?w1")
  have run1: "(case o2 of Inl e \<Rightarrow> (Inl e, w2)
             | Inr ts \<Rightarrow>
                 (case reference_pointing reference (map (\<lambda>t. rot_apply (trans_R t) boresight) ts) of
                    Inl e \<Rightarrow> (Inl e, w2)
                  | Inr v \<Rightarrow>
                      (case align_to v boresight of
                         Inl e \<Rightarrow> (Inl e, w2)
                       | Inr r \<Rightarrow> ensemble_facets (map (transform_mul (from_R r)) ts) n w2))) = (Inr (), w')"
    using run dcf n ft
    by (simp add: calculate_facet_pointing_def returns_def raises_def lift_def andthen_def reads_def assign_def
        get_attr_def attr_val_def Let_def split: if_splits reference.splits sum.splits)
  then obtain ts where o2: "o2 = Inr ts" by (cases o2) simp_all
  from facet_transforms_result [OF ft [unfolded o2] ed1 dcf1]
  have w2: "w2 = ?w1" and len: "length ts = n"
    and tsi: "\<forall>i < n. i < length dcf \<and> ts ! i = facet_pre_transform ?E dcf i"
    by simp_all
  have pts: "map (\<lambda>t. rot_apply (trans_R t) boresight) ts = map (facet_pointing ?E dcf) [0 ..< n]"
    using len tsi by (auto simp: list_eq_iff_nth_eq facet_pointing_def)
  obtain v where v: "reference_pointing reference (map (facet_pointing ?E dcf) [0 ..< n]) = Inr v"
    using run1 o2 pts by (cases "reference_pointing reference (map (facet_pointing ?E dcf) [0 ..< n])") simp_all
  obtain r where r: "align_to v boresight = Inr r"
    using run1 o2 pts v by (cases "align_to v boresight") simp_all
  have loop: "for_each [0 ..< n] (\<lambda>idx _. ensemble_facet (map (transform_mul (from_R r)) ts) idx) () ?w1 = (Inr (), w')"
    using run1 o2 pts v r w2 by (simp add: ensemble_facets_def)
  have "data_calculation_ensemble (self w') =
      Val ([] @ map (\<lambda>i. ensemble_record (map (transform_mul (from_R r)) ts ! i) (dcf ! i)) [0 ..< n])"
    by (rule ensemble_loop [OF loop dcf1]) simp
  also have "map (\<lambda>i. ensemble_record (map (transform_mul (from_R r)) ts ! i) (dcf ! i)) [0 ..< n]
      = map (\<lambda>i. ensemble_record (transform_mul (from_R r) (facet_pre_transform ?E dcf i)) (dcf ! i)) [0 ..< n]"
    using len tsi by simp
  finally have dce: "data_calculation_ensemble (self w') =
      Val (map (\<lambda>i. ensemble_record (transform_mul (from_R r) (facet_pre_transform ?E dcf i)) (dcf ! i)) [0 ..< n])"
    by simp
  show ?thesis
    using v r dce tsi by blast
qed

subsection \<open>The facet pointing calculation on the example ensemble\<close>

lemma sqrt_16_25: "sqrt (16 / 25) = 4 / 5"
  by (simp add: real_sqrt_divide)

lemma sqrt_25_16: "sqrt (25 / 16) = 5 / 4"
  by (simp add: real_sqrt_divide)

lemmas pointing_eval =
  calculate_facet_pointing_def facet_transforms_def ensemble_facets_def facet_transform_def
  ensemble_facet_def ensemble_record_def local_to_ensemble_def reference_pointing_def np_column_def
  align_to_def vmean_def magnitude_def normalize_def slopes_to_ensemble_def rotate_def np_div_def
  transform_mul_def transform_apply_def from_R_def from_V_def from_R_V_def rot_mul_def rot_inv_def
  rot_add_def rot_scale_def rot_id_def boresight_def tilt_def
  returns_def raises_def lift_def andthen_def reads_def assign_def
  get_attr_def attr_obj_def attr_val_def list_get_def
  pointing_world_def example_world_def example_heap_def example_slope_data_def init_def
  Let_def numeral_2_eq_2 sqrt_16_25 sqrt_25_16

lemma pointing_average_run:
  "calculate_facet_pointing (RefStr ''average'') pointing_world =
     (Inr (), pointing_world\<lparr>self := (self pointing_world)\<lparr>data_calculation_ensemble := Val
        [\<lparr>trans_facet_ensemble = \<lparr>trans_R = ((4 / 5, 0, - 3 / 5), (0, 1, 0), (3 / 5, 0, 4 / 5)), trans_V = (0, 0, 0)\<rparr>,
          slopes_ensemble_xy = [(Some (3 / 4), Some 0), (Some (24 / 7), Some 0)],
          v_surf_points_ensemble = [(0, 0, 0), (4 / 5, 0, 3 / 5)],
          v_facet_pointing_ensemble = (- 3 / 5, 0, 4 / 5)\<rparr>,
         \<lparr>trans_facet_ensemble = \<lparr>trans_R = ((4 / 5, 0, 3 / 5), (0, 1, 0), (- 3 / 5, 0, 4 / 5)), trans_V = (8 / 5, 0, 6 / 5)\<rparr>,
          slopes_ensemble_xy = [(Some (- 3 / 4), Some 0), (Some 0, Some 0)],
          v_surf_points_ensemble = [(8 / 5, 0, 6 / 5), (12 / 5, 0, 3 / 5)],
          v_facet_pointing_ensemble = (3 / 5, 0, 4 / 5)\<rparr>]\<rparr>\<rparr>)"
  by (simp add: pointing_eval)

lemma pointing_world_attrs:
  "data_calculation_facet (self pointing_world) = Val [example_slope_data, example_slope_data]"
  "num_facets (self pointing_world) = Val 2"
  "data_ensemble_def (self pointing_world) = Val 0"
  by (simp_all add: pointing_world_def)

lemma example_pointings:
  "facet_pointing (ensemble_defs (heap pointing_world) 0) [example_slope_data, example_slope_data] 0 = (0, 0, 1)"
  "facet_pointing (ensemble_defs (heap pointing_world) 0) [example_slope_data, example_slope_data] (Suc 0) = (24 / 25, 0, 7 / 25)"
  by (simp_all add: facet_pointing_def facet_pre_transform_def pointing_eval)

subsection \<open>The checks of the facet pointing calculation\<close>

text \<open>
  C5. The claim is that the facet pointing calculation raises a \<^verbatim>\<open>ValueError\<close> for
  every integer reference outside \<open>0 .. num_facets - 1\<close> and when the slopes have not
  been solved. The code compares the reference with the upper end only
  (\<^verbatim>\<open>reference >= self.num_facets\<close>), and reads an attribute the constructor never
  binds. With two facets the reference \<open>-1\<close> is accepted: the call returns, and numpy's
  indexing from the end makes the last facet the reference, whose pointing vector is
  the boresight afterwards. On a new instance, where no slopes have been solved, the
  call raises an \<^verbatim>\<open>AttributeError\<close> at the first check.
\<close>

theorem facet_index_check_misses_cases:
  "fst (calculate_facet_pointing (RefInt (- 1)) pointing_world) = Inr ()
   \<and> map_attr (map v_facet_pointing_ensemble)
        (data_calculation_ensemble (self (snd (calculate_facet_pointing (RefInt (- 1)) pointing_world))))
       = Val [(- 24 / 25, 0, 7 / 25), (0, 0, 1)]
   \<and> calculate_facet_pointing (RefStr ''average'') (example_world example_measurement)
       = (Inl (AttributeError ''data_calculation_facet''), example_world example_measurement)"
  by (simp add: pointing_eval)

subsection \<open>The pointing correction\<close>

text \<open>
  C3, as the claim states it, fails for the reference \<^verbatim>\<open>'average'\<close>. On the example
  ensemble the two pointing vectors are \<open>(0, 0, 1)\<close> and \<open>(24/25, 0, 7/25)\<close>, their mean
  is \<open>(12/25, 0, 16/25)\<close> of length \<open>4/5\<close>, and the correction maps the mean to
  \<open>(0, 0, 4/5)\<close>, not to \<open>(0, 0, 1)\<close>: a rotation keeps the length of a vector. The two
  corrected pointing vectors are symmetric about the boresight.
\<close>

theorem average_reference_counterexample:
  "fst (calculate_facet_pointing (RefStr ''average'') pointing_world) = Inr ()
   \<and> vmean (map (facet_pointing (ensemble_defs (heap pointing_world) 0) [example_slope_data, example_slope_data]) [0 ..< 2])
       = (12 / 25, 0, 16 / 25)
   \<and> align_to (12 / 25, 0, 16 / 25) boresight = Inr ((4 / 5, 0, - 3 / 5), (0, 1, 0), (3 / 5, 0, 4 / 5))
   \<and> rot_apply ((4 / 5, 0, - 3 / 5), (0, 1, 0), (3 / 5, 0, 4 / 5)) (12 / 25, 0, 16 / 25) = (0, 0, 4 / 5)
   \<and> (0, 0, 4 / 5) \<noteq> boresight
   \<and> map_attr (map v_facet_pointing_ensemble)
        (data_calculation_ensemble (self (snd (calculate_facet_pointing (RefStr ''average'') pointing_world))))
       = Val [(- 3 / 5, 0, 4 / 5), (3 / 5, 0, 4 / 5)]"
  using pointing_average_run example_pointings
  by (simp add: numeral_2_eq_2 vmean_def align_to_def magnitude_def normalize_def Let_def boresight_def
      rot_add_def rot_scale_def rot_mul_def rot_id_def sqrt_16_25)

lemma facet_pointing_unit:
  assumes "is_rotation (r_facet_ensemble ed ! i)" and "is_rotation (trans_R (trans_alignment (dcf ! i)))"
  shows "magnitude (facet_pointing ed dcf i) = 1"
proof -
  have "facet_pointing ed dcf i =
      rot_apply (rot_inv (trans_R (trans_alignment (dcf ! i)))) (rot_apply (r_facet_ensemble ed ! i) boresight)"
    by (simp add: facet_pointing_def facet_pre_transform_def local_to_ensemble_def Let_def trans_R_mul
        rot_apply_mul rot_apply_id from_V_def from_R_def from_R_V_def)
  then show ?thesis
    using assms by (simp add: magnitude_rot_apply is_rotation_inv magnitude_boresight)
qed

lemma ensemble_record_pointing:
  "v_facet_pointing_ensemble (ensemble_record (transform_mul (from_R r) (facet_pre_transform ed dcf i)) d)
     = rot_apply r (facet_pointing ed dcf i)"
  by (simp add: ensemble_record_def facet_pointing_def trans_R_mul trans_R_from_R rot_apply_mul)

text \<open>
  C3, amended. After a facet pointing calculation that returns, one rotation \<open>r\<close> has
  been composed on the left of the transform of every facet, and the pointing vector
  stored for a facet is \<open>r\<close> applied to the facet's pointing vector before the
  correction. With an integer reference \<open>i \<ge> 0\<close> (and the facet's rotations orthonormal)
  \<open>r\<close> maps the pointing vector of facet \<open>i\<close> to the boresight, so the stored pointing
  vector of facet \<open>i\<close> is \<open>(0, 0, 1)\<close>. With the reference \<^verbatim>\<open>'average'\<close> it maps the mean
  of the pointing vectors onto the boresight axis, keeping its length: to the boresight
  times the length of the mean.
\<close>

theorem pointing_correction:
  assumes run: "calculate_facet_pointing reference w = (Inr (), w')"
    and dcf: "data_calculation_facet (self w) = Val dcf"
    and n: "num_facets (self w) = Val n"
    and ed: "data_ensemble_def (self w) = Val ed"
  shows "\<exists>r dce. data_calculation_ensemble (self w') = Val dce \<and> length dce = n
      \<and> (\<forall>idx < n.
            trans_facet_ensemble (dce ! idx) =
              transform_mul (from_R r) (facet_pre_transform (ensemble_defs (heap w) ed) dcf idx)
            \<and> v_facet_pointing_ensemble (dce ! idx) =
              rot_apply r (facet_pointing (ensemble_defs (heap w) ed) dcf idx))
      \<and> (\<forall>i. reference = RefInt i \<and> 0 \<le> i
               \<and> is_rotation (r_facet_ensemble (ensemble_defs (heap w) ed) ! nat i)
               \<and> is_rotation (trans_R (trans_alignment (dcf ! nat i))) \<longrightarrow>
            nat i < n
            \<and> rot_apply r (facet_pointing (ensemble_defs (heap w) ed) dcf (nat i)) = boresight
            \<and> v_facet_pointing_ensemble (dce ! nat i) = boresight)
      \<and> (reference = RefStr ''average'' \<longrightarrow>
            rot_apply r (vmean (map (facet_pointing (ensemble_defs (heap w) ed) dcf) [0 ..< n])) =
              vscale (magnitude (vmean (map (facet_pointing (ensemble_defs (heap w) ed) dcf) [0 ..< n]))) boresight)"
proof -
  let ?E = "ensemble_defs (heap w) ed"
  let ?dce = "map (\<lambda>i. ensemble_record (transform_mul (from_R r) (facet_pre_transform ?E dcf i)) (dcf ! i)) [0 ..< n]"
  from calculate_facet_pointing_result [OF run dcf n ed] obtain v r where
    v: "reference_pointing reference (map (facet_pointing ?E dcf) [0 ..< n]) = Inr v"
    and r: "align_to v boresight = Inr r"
    and dce: "data_calculation_ensemble (self w') =
              Val (map (\<lambda>i. ensemble_record (transform_mul (from_R r) (facet_pre_transform ?E dcf i)) (dcf ! i)) [0 ..< n])"
    by blast
  have each: "\<forall>idx < n.
      trans_facet_ensemble (map (\<lambda>i. ensemble_record (transform_mul (from_R r) (facet_pre_transform ?E dcf i)) (dcf ! i)) [0 ..< n] ! idx)
        = transform_mul (from_R r) (facet_pre_transform ?E dcf idx)
      \<and> v_facet_pointing_ensemble (map (\<lambda>i. ensemble_record (transform_mul (from_R r) (facet_pre_transform ?E dcf i)) (dcf ! i)) [0 ..< n] ! idx)
        = rot_apply r (facet_pointing ?E dcf idx)"
    by (simp add: ensemble_record_pointing) (simp add: ensemble_record_def)
  have int_case: "nat i < n \<and> rot_apply r (facet_pointing ?E dcf (nat i)) = boresight"
    if "reference = RefInt i" and "0 \<le> i"
      and "is_rotation (r_facet_ensemble ?E ! nat i)" and "is_rotation (trans_R (trans_alignment (dcf ! nat i)))"
    for i
  proof -
    have lt: "nat i < n" and vi: "v = facet_pointing ?E dcf (nat i)"
      using v that(1,2) by (auto simp: reference_pointing_def np_column_def Let_def split: if_splits)
    have "magnitude v = 1"
      unfolding vi by (rule facet_pointing_unit [OF that(3,4)])
    from align_to_unit [OF r this] show ?thesis using lt vi by simp
  qed
  have avg_case: "rot_apply r (vmean (map (facet_pointing ?E dcf) [0 ..< n])) =
        vscale (magnitude (vmean (map (facet_pointing ?E dcf) [0 ..< n]))) boresight"
    if "reference = RefStr ''average''"
  proof -
    have "v = vmean (map (facet_pointing ?E dcf) [0 ..< n])"
      using v that by (simp add: reference_pointing_def)
    then show ?thesis using align_to_maps [OF r] by simp
  qed
  show ?thesis
    apply (rule exI [of _ r])
    apply (rule exI [of _ "map (\<lambda>i. ensemble_record (transform_mul (from_R r) (facet_pre_transform ?E dcf i)) (dcf ! i)) [0 ..< n]"])
    using dce each int_case avg_case by simp
qed

theorem pointing_correction_witness:
  "\<exists>r dce. data_calculation_ensemble (self (snd (calculate_facet_pointing (RefStr ''average'') pointing_world))) = Val dce
      \<and> length dce = 2
      \<and> trans_facet_ensemble (dce ! 1) =
          transform_mul (from_R r)
            (facet_pre_transform (ensemble_defs (heap pointing_world) 0) [example_slope_data, example_slope_data] 1)
      \<and> rot_apply r (12 / 25, 0, 16 / 25) = (0, 0, 4 / 5)"
proof -
  have run: "calculate_facet_pointing (RefStr ''average'') pointing_world =
      (Inr (), snd (calculate_facet_pointing (RefStr ''average'') pointing_world))"
    using pointing_average_run by simp
  have m: "vmean (map (facet_pointing (ensemble_defs (heap pointing_world) 0) [example_slope_data, example_slope_data]) [0 ..< 2])
      = (12 / 25, 0, 16 / 25)"
    using example_pointings by (simp add: numeral_2_eq_2 vmean_def)
  have mag: "magnitude (12 / 25, 0, 16 / 25) = 4 / 5"
    by (simp add: magnitude_def sqrt_16_25)
  from pointing_correction [OF run pointing_world_attrs] obtain r dce where
    A: "data_calculation_ensemble (self (snd (calculate_facet_pointing (RefStr ''average'') pointing_world))) = Val dce"
    and B: "length dce = 2"
    and C: "\<forall>idx < 2. trans_facet_ensemble (dce ! idx) =
              transform_mul (from_R r) (facet_pre_transform (ensemble_defs (heap pointing_world) 0) [example_slope_data, example_slope_data] idx)
            \<and> v_facet_pointing_ensemble (dce ! idx) =
              rot_apply r (facet_pointing (ensemble_defs (heap pointing_world) 0) [example_slope_data, example_slope_data] idx)"
    and D: "RefStr ''average'' = RefStr ''average'' \<longrightarrow>
            rot_apply r (vmean (map (facet_pointing (ensemble_defs (heap pointing_world) 0) [example_slope_data, example_slope_data]) [0 ..< 2])) =
              vscale (magnitude (vmean (map (facet_pointing (ensemble_defs (heap pointing_world) 0) [example_slope_data, example_slope_data]) [0 ..< 2]))) boresight"
    by blast
  have C1: "trans_facet_ensemble (dce ! 1) =
          transform_mul (from_R r)
            (facet_pre_transform (ensemble_defs (heap pointing_world) 0) [example_slope_data, example_slope_data] 1)"
    using C by simp
  have D1: "rot_apply r (12 / 25, 0, 16 / 25) = (0, 0, 4 / 5)"
    using D unfolding m mag by (simp add: boresight_def)
  show ?thesis
    using A B C1 D1 by blast
qed

subsection \<open>Slopes in ensemble coordinates\<close>

lemma slopes_to_ensemble_nth:
  assumes "k < length slopes"
  shows "slopes_to_ensemble r slopes ! k = slopes_global r (slopes ! k)"
  using assms
  by (simp add: slopes_to_ensemble_def slopes_global_def rotate_def Let_def split_beta)

text \<open>
  C4. After a facet pointing calculation that returns, the ensemble slope stored for
  pixel \<open>k\<close> of facet \<open>idx\<close> is obtained from the facet slope \<open>(sx, sy)\<close> of that pixel
  by forming the unit normal in the direction \<open>(-sx, -sy, 1)\<close>, rotating it by the
  rotation of the facet's final transform into ensemble coordinates, and dividing the
  negated x and y components of the rotated normal by its z component.
\<close>

theorem ensemble_slopes_rotate_normals:
  assumes run: "calculate_facet_pointing reference w = (Inr (), w')"
    and dcf: "data_calculation_facet (self w) = Val dcf"
    and n: "num_facets (self w) = Val n"
    and ed: "data_ensemble_def (self w) = Val ed"
    and idx: "idx < n"
    and k: "k < length (slopes_facet_xy (dcf ! idx))"
  shows "\<exists>dce. data_calculation_ensemble (self w') = Val dce \<and> length dce = n
      \<and> length (slopes_ensemble_xy (dce ! idx)) = length (slopes_facet_xy (dcf ! idx))
      \<and> slopes_ensemble_xy (dce ! idx) ! k =
          slopes_global (trans_R (trans_facet_ensemble (dce ! idx))) (slopes_facet_xy (dcf ! idx) ! k)"
proof -
  from calculate_facet_pointing_result [OF run dcf n ed] obtain v r where
    dce: "data_calculation_ensemble (self w') =
              Val (map (\<lambda>i. ensemble_record
                            (transform_mul (from_R r) (facet_pre_transform (ensemble_defs (heap w) ed) dcf i))
                            (dcf ! i)) [0 ..< n])"
    by blast
  show ?thesis
    using dce idx k
    by (simp add: ensemble_record_def slopes_to_ensemble_nth) (simp add: slopes_to_ensemble_def rotate_def)
qed

theorem ensemble_slopes_rotate_normals_witness:
  "\<exists>dce. data_calculation_ensemble (self (snd (calculate_facet_pointing (RefStr ''average'') pointing_world))) = Val dce
      \<and> length dce = 2
      \<and> slopes_ensemble_xy (dce ! 0) ! 1 = (Some (24 / 7), Some 0)
      \<and> slopes_global (trans_R (trans_facet_ensemble (dce ! 0))) (3 / 4, 0) = (Some (24 / 7), Some 0)"
proof -
  have run: "calculate_facet_pointing (RefStr ''average'') pointing_world =
      (Inr (), snd (calculate_facet_pointing (RefStr ''average'') pointing_world))"
    using pointing_average_run by simp
  have idx: "(0::nat) < 2" by simp
  have k: "1 < length (slopes_facet_xy ([example_slope_data, example_slope_data] ! 0))"
    by (simp add: example_slope_data_def)
  from ensemble_slopes_rotate_normals [OF run pointing_world_attrs idx k]
  show ?thesis
    using pointing_average_run by (simp add: example_slope_data_def)
qed

end
